theory Spec2Isabelle
  imports Main
begin

section \<open>PowerPoint conversion server: the model\<close>

text \<open>
  The development embeds \<^verbatim>\<open>src/server.js\<close> (version 1.7, the revision with MongoDB
  persistence). The file \<^verbatim>\<open>src/unnamed/part_000\<close> is revision 1.2 of the same server,
  without a database; it is not modelled.

  What lies outside the JavaScript source is an explicit input of the model:
  \<^item> the outcome of every external process, directory listing and file-system call is a
    field of the record \<open>env\<close>;
  \<^item> a database call that throws is a boolean of the operation that makes the call;
  \<^item> the identifiers drawn from \<^verbatim>\<open>uuidv4()\<close> and the clock are fields of \<open>env\<close>.

  A handler answers with a response, or with none when an exception escapes it (the
  handlers are \<^verbatim>\<open>async\<close> functions, and Express 4 does not answer for a rejected
  promise). Identifiers drawn from \<^verbatim>\<open>uuidv4()\<close> are never property names of
  \<^verbatim>\<open>Object.prototype\<close>. Strings are lists of ASCII characters.
\<close>

subsection \<open>Strings\<close>

definition digit_char :: "nat \<Rightarrow> char" where
  "digit_char d = ''0123456789'' ! d"

text \<open>The decimal rendering of a non-negative integer in a template literal.\<close>

fun decimal :: "nat \<Rightarrow> string" where
  "decimal n = (if n < 10 then [digit_char n] else decimal (n div 10) @ [digit_char (n mod 10)])"

declare decimal.simps [simp del]

text \<open>\<^verbatim>\<open>String.prototype.toLowerCase\<close> on ASCII.\<close>

definition lower_char :: "char \<Rightarrow> char" where
  "lower_char c =
     (case map_of (zip ''ABCDEFGHIJKLMNOPQRSTUVWXYZ'' ''abcdefghijklmnopqrstuvwxyz'') c of
        Some l \<Rightarrow> l
      | None \<Rightarrow> c)"

definition toLowerCase :: "string \<Rightarrow> string" where
  "toLowerCase s = map lower_char s"

text \<open>\<^verbatim>\<open>String.prototype.endsWith\<close>.\<close>

definition endsWith :: "string \<Rightarrow> string \<Rightarrow> bool" where
  "endsWith s suffix = (length suffix \<le> length s \<and> drop (length s - length suffix) s = suffix)"

text \<open>
  \<^verbatim>\<open>path.extname\<close> of Node (POSIX flavour): the part of the last path component from its
  last dot on; empty when the component has no dot, when its only dot is its first
  character, or when the component is \<^verbatim>\<open>..\<close>. Trailing slashes are ignored.
\<close>

definition extname :: "string \<Rightarrow> string" where
  "extname p =
     (let trimmed = rev (dropWhile (\<lambda>c. c = CHR ''/'') (rev p));
          base = rev (takeWhile (\<lambda>c. c \<noteq> CHR ''/'') (rev trimmed));
          ext = rev (takeWhile (\<lambda>c. c \<noteq> CHR ''.'') (rev base))
      in if CHR ''.'' \<notin> set base then []
         else if length base = length ext + 1 then []
         else if base = ''..'' then []
         else CHR ''.'' # ext)"

text \<open>
  \<^verbatim>\<open>originalname.replace(/\.[^/.]+$/, "")\<close>: a final dot followed by one or more
  characters other than dot and slash is removed.
\<close>

definition stripExtension :: "string \<Rightarrow> string" where
  "stripExtension s =
     (let tail = takeWhile (\<lambda>c. c \<noteq> CHR ''.'' \<and> c \<noteq> CHR ''/'') (rev s)
      in if tail \<noteq> [] \<and> length tail < length s \<and> rev s ! length tail = CHR ''.''
         then take (length s - length tail - 1) s else s)"

text \<open>\<^verbatim>\<open>value || fallback\<close> on an optional string: absent and empty are both falsy.\<close>

definition orDefault :: "string option \<Rightarrow> string \<Rightarrow> string" where
  "orDefault v fallback = (case v of None \<Rightarrow> fallback | Some s \<Rightarrow> if s = [] then fallback else s)"

subsection \<open>The presentation document and the Presentation collection\<close>

record presentation =
  id_p :: string
  originalName :: string
  title :: string
  summary :: string
  author :: string
  authorId :: string
  topics :: "string list"
  slideCount :: nat
  slides :: "string list"
  slideTexts :: "string list"
  converted :: nat
  isPlaceholder :: bool
  viewCount :: nat
  isDeleted :: bool

text \<open>
  The collection is the list of its documents in insertion order. \<open>findOne\<close> returns the
  first document that matches the filter, \<open>findOneAndUpdate\<close> rewrites that document in
  place.
\<close>

type_synonym collection = "presentation list"

definition findOne :: "(presentation \<Rightarrow> bool) \<Rightarrow> collection \<Rightarrow> presentation option" where
  "findOne flt docs = find flt docs"

fun updateFirst :: "(presentation \<Rightarrow> bool) \<Rightarrow> (presentation \<Rightarrow> presentation) \<Rightarrow> collection \<Rightarrow> collection" where
  "updateFirst flt upd [] = []"
| "updateFirst flt upd (d # ds) = (if flt d then upd d # ds else d # updateFirst flt upd ds)"

definition hasId :: "string \<Rightarrow> presentation \<Rightarrow> bool" where
  "hasId i d = (id_p d = i)"

definition liveWithId :: "string \<Rightarrow> presentation \<Rightarrow> bool" where
  "liveWithId i d = (id_p d = i \<and> \<not> isDeleted d)"

datatype error = DatabaseError | VerificationFailed | TypeError

text \<open>
  \<^verbatim>\<open>saveToDatabase\<close>: look the id up; update the existing document with the payload, or
  insert the payload. \<open>findThrows\<close> and \<open>writeThrows\<close> say whether the lookup and the
  write raise; the function re-throws what it catches. An update that found nothing would
  return \<^verbatim>\<open>null\<close>, on which \<^verbatim>\<open>toObject\<close> throws.
\<close>

definition saveToDatabase ::
  "bool \<Rightarrow> bool \<Rightarrow> collection \<Rightarrow> presentation \<Rightarrow> error + (presentation \<times> collection)" where
  "saveToDatabase findThrows writeThrows docs presentationData =
     (if findThrows then Inl DatabaseError
      else case findOne (hasId (id_p presentationData)) docs of
        Some existingPresentation \<Rightarrow>
          if writeThrows then Inl DatabaseError
          else let docs' = updateFirst (hasId (id_p presentationData)) (\<lambda>_. presentationData) docs
               in (case findOne (hasId (id_p presentationData)) docs' of
                     Some updatedPresentation \<Rightarrow> Inr (updatedPresentation, docs')
                   | None \<Rightarrow> Inl TypeError)
      | None \<Rightarrow>
          if writeThrows then Inl DatabaseError
          else Inr (presentationData, docs @ [presentationData]))"

text \<open>\<^verbatim>\<open>verifyDatabaseSave\<close>: read the id back; a lookup that throws counts as not found.\<close>

definition verifyDatabaseSave :: "bool \<Rightarrow> collection \<Rightarrow> string \<Rightarrow> bool" where
  "verifyDatabaseSave findThrows docs presentationId =
     (if findThrows then False
      else case findOne (hasId presentationId) docs of Some _ \<Rightarrow> True | None \<Rightarrow> False)"

text \<open>The number of documents stored under an id.\<close>

definition recordsWithId :: "string \<Rightarrow> collection \<Rightarrow> nat" where
  "recordsWithId i docs = length (filter (hasId i) docs)"

subsection \<open>JavaScript objects used as dictionaries\<close>

text \<open>
  The caches \<^verbatim>\<open>presentations\<close>, \<^verbatim>\<open>presentationsByTopic\<close> and
  \<^verbatim>\<open>userPresentationHistory\<close> are object literals. Reading \<^verbatim>\<open>obj[key]\<close> yields the own
  property when there is one, and otherwise what \<^verbatim>\<open>Object.prototype\<close> holds under that
  name: a function (for \<^verbatim>\<open>__proto__\<close>, the prototype itself), which is truthy but has
  none of the array methods and none of the fields of a record. An own property is
  created only under a key that read as undefined, and \<^verbatim>\<open>delete\<close> and
  \<^verbatim>\<open>Object.keys\<close> see own properties only.
\<close>

definition objectPrototypeNames :: "string list" where
  "objectPrototypeNames =
     [''constructor'', ''__defineGetter__'', ''__defineSetter__'', ''hasOwnProperty'',
      ''__lookupGetter__'', ''__lookupSetter__'', ''isPrototypeOf'', ''propertyIsEnumerable'',
      ''toString'', ''valueOf'', ''__proto__'', ''toLocaleString'']"

datatype 'a property = Own 'a | Inherited | Undefined

definition getProperty :: "(string \<rightharpoonup> 'a) \<Rightarrow> string \<Rightarrow> 'a property" where
  "getProperty obj key =
     (case obj key of
        Some v \<Rightarrow> Own v
      | None \<Rightarrow> if key \<in> set objectPrototypeNames then Inherited else Undefined)"

subsection \<open>Server state\<close>

text \<open>
  A slide image file either holds what the renderer produced or the text written by one of
  the two placeholder generators. Only the slide images under \<^verbatim>\<open>public/slides\<close> are
  tracked; uploads, the intermediate PDF and the \<^verbatim>\<open>temp\<close> directory are not.
\<close>

datatype file_content = Rendered | Text string

type_synonym disk = "string \<rightharpoonup> file_content"

record server =
  db :: collection
  presentations :: "string \<rightharpoonup> presentation"
  presentationsByTopic :: "string \<rightharpoonup> string list"
  userPresentationHistory :: "string \<rightharpoonup> string list"
  files :: disk

subsection \<open>Requests and responses\<close>

record upload =
  originalname :: string
  size_bytes :: nat

datatype topics_field = NoTopics | OneTopic string | ManyTopics "string list"

record convert_request =
  req_file :: "upload option"
  body_title :: "string option"
  body_summary :: "string option"
  body_author :: "string option"
  body_authorId :: "string option"
  body_topics :: topics_field

record converted_body =
  r_id :: string
  r_originalName :: string
  r_title :: string
  r_slideCount :: nat
  r_slides :: "string list"
  r_slideTexts :: "string list"
  r_status :: "string option"
  r_message :: "string option"
  r_topics :: "string list"

datatype body =
    ErrorBody string
  | DatabaseErrorBody error string
  | ConvertedBody converted_body
  | PresentationBody presentation
  | InheritedBody
  | SuccessBody string

record response =
  status :: nat
  body :: body

subsection \<open>Upload middleware\<close>

definition allowedExtensions :: "string list" where
  "allowedExtensions = [''.ppt'', ''.pptx'', ''.key'']"

text \<open>\<^verbatim>\<open>fileFilter\<close>: \<open>None\<close> accepts the file, \<open>Some msg\<close> is the error handed to the callback.\<close>

definition fileFilter :: "upload \<Rightarrow> string option" where
  "fileFilter f =
     (let ext = toLowerCase (extname (originalname f))
      in if ext \<in> set allowedExtensions then None
         else Some ''Only PowerPoint files (.ppt, .pptx) and Keynote files (.key) are allowed'')"

definition fileSizeLimit :: nat where
  "fileSizeLimit = 50 * 1024 * 1024"

text \<open>
  \<^verbatim>\<open>upload.single('presentation')\<close>: the filter runs first, then the size limit while the
  file is stored. An error goes to the error-handling middleware; otherwise the handler
  runs with \<^verbatim>\<open>req.file\<close> set, or unset when the request carries no file.
\<close>

definition uploadSingle :: "convert_request \<Rightarrow> string + upload option" where
  "uploadSingle req =
     (case req_file req of
        None \<Rightarrow> Inr None
      | Some f \<Rightarrow>
          (case fileFilter f of
             Some msg \<Rightarrow> Inl msg
           | None \<Rightarrow> if fileSizeLimit < size_bytes f then Inl ''File too large'' else Inr (Some f)))"

text \<open>The error-handling middleware at the end of the file.\<close>

definition errorHandler :: "string \<Rightarrow> response" where
  "errorHandler message = \<lparr>status = 500, body = ErrorBody (orDefault (Some message) ''Something went wrong!'')\<rparr>"

subsection \<open>The environment of one conversion\<close>

text \<open>
  What happens to one PDF page: the \<^verbatim>\<open>pdftoppm\<close> call throws; it returns but the image
  file is missing; copying the image to its final name throws; or the image is in place
  and \<^verbatim>\<open>pdftotext\<close> either throws (\<open>None\<close>) or prints a text, given here after
  \<^verbatim>\<open>trim()\<close>.
\<close>

datatype page_outcome = ExecThrows | TempFileMissing | CopyThrows | Extracted "string option"

record env =
  now :: nat
  newPresentationId :: string
  newAuthorId :: string
  mkdirOutputThrows :: bool
  libreOfficeFound :: bool
  installThrows :: bool
  libreOfficeFoundAfterInstall :: bool
  pdfExecError :: bool
  pdfReaddir :: "string list option"
  pdfInfoPages :: "nat option"
  mkdirTempThrows :: bool
  raster :: "nat \<Rightarrow> page_outcome"
  jpgExecError :: bool
  jpgReaddir :: "string list option"
  renameThrows :: "nat \<Rightarrow> bool"
  writeFileThrows :: "string \<Rightarrow> bool"
  saveFindThrows :: bool
  saveWriteThrows :: bool
  verifyThrows :: bool

subsection \<open>Placeholder generators\<close>

definition newline :: string where
  "newline = [CHR 0x0A]"

text \<open>The text of a generic placeholder, and of a distinct one (by parity of the slide number).\<close>

definition genericText :: "nat \<Rightarrow> string \<Rightarrow> string" where
  "genericText slideNumber ttl =
     ''Placeholder for slide '' @ decimal slideNumber @ newline @ ''Title: '' @ ttl @ newline @ newline
     @ ''LibreOffice is not installed on the server,'' @ newline
     @ ''so actual slide conversion is not available.''"

definition distinctText :: "nat \<Rightarrow> string \<Rightarrow> string" where
  "distinctText slideNumber ttl =
     (if slideNumber mod 2 = 0
      then ''SLIDE '' @ decimal slideNumber @ '' - EVEN NUMBER'' @ newline @ newline
           @ ''This is an even-numbered slide placeholder.'' @ newline
           @ ''Title: '' @ ttl @ newline @ newline @ ''Slide content would appear here.''
      else ''SLIDE '' @ decimal slideNumber @ '' - ODD NUMBER'' @ newline @ newline
           @ ''This is an odd-numbered slide placeholder.'' @ newline
           @ ''Title: '' @ ttl @ newline @ newline @ ''Different slide content would appear here.'')"

text \<open>Both generators catch a failed write and report it as \<open>False\<close>.\<close>

definition createPlaceholderImage :: "env \<Rightarrow> string \<Rightarrow> nat \<Rightarrow> string \<Rightarrow> disk \<Rightarrow> bool \<times> disk" where
  "createPlaceholderImage e outputPath slideNumber ttl d =
     (let placeholderText = genericText slideNumber ttl
      in if writeFileThrows e outputPath then (False, d) else (True, d(outputPath \<mapsto> Text placeholderText)))"

definition createDistinctPlaceholder :: "env \<Rightarrow> string \<Rightarrow> nat \<Rightarrow> string \<Rightarrow> disk \<Rightarrow> bool \<times> disk" where
  "createDistinctPlaceholder e outputPath slideNumber ttl d =
     (let placeholderText = distinctText slideNumber ttl
      in if writeFileThrows e outputPath then (False, d) else (True, d(outputPath \<mapsto> Text placeholderText)))"

subsection \<open>Paths and URLs\<close>

text \<open>Paths are relative to the server directory.\<close>

definition outputDir :: "string \<Rightarrow> string" where
  "outputDir presentationId = ''public/slides/'' @ presentationId"

definition joinPath :: "string \<Rightarrow> string \<Rightarrow> string" where
  "joinPath dir name = dir @ ''/'' @ name"

definition slideFileName :: "nat \<Rightarrow> string" where
  "slideFileName n = ''slide-'' @ decimal n @ ''.jpg''"

definition slideUrl :: "string \<Rightarrow> string \<Rightarrow> string" where
  "slideUrl presentationId name = ''/slides/'' @ presentationId @ ''/'' @ name"

text \<open>The static middleware serves \<^verbatim>\<open>/slides/...\<close> from \<^verbatim>\<open>public/slides/...\<close>.\<close>

definition servedFile :: "string \<Rightarrow> string" where
  "servedFile url = ''public'' @ url"

subsection \<open>The slide arrays built by a strategy\<close>

text \<open>
  Each strategy pushes onto two arrays, the URLs and the texts, and writes slide files.
\<close>

record arrays =
  urls :: "string list"
  texts :: "string list"
  written :: disk

definition emptyArrays :: "disk \<Rightarrow> arrays" where
  "emptyArrays d = \<lparr>urls = [], texts = [], written = d\<rparr>"

text \<open>Renderer unavailable: the loop body for index \<open>i\<close> of \<open>placeholderCount = 5\<close>.\<close>

definition placeholderCount :: nat where
  "placeholderCount = 5"

definition genericStep :: "env \<Rightarrow> string \<Rightarrow> string \<Rightarrow> nat \<Rightarrow> arrays \<Rightarrow> arrays" where
  "genericStep e presentationId oname i a =
     (let placeholderPath = joinPath (outputDir presentationId) (slideFileName (i + 1));
          d = snd (createPlaceholderImage e placeholderPath (i + 1) oname (written a))
      in \<lparr>urls = urls a @ [slideUrl presentationId (slideFileName (i + 1))],
          texts = texts a @ [''Slide '' @ decimal (i + 1) @ '' (Placeholder)''],
          written = d\<rparr>)"

definition genericPlaceholders :: "env \<Rightarrow> string \<Rightarrow> string \<Rightarrow> disk \<Rightarrow> arrays" where
  "genericPlaceholders e presentationId oname d =
     fold (genericStep e presentationId oname) [0..<placeholderCount] (emptyArrays d)"

text \<open>The PDF strategy: the loop body for index \<open>i\<close>, page \<open>i + 1\<close>.\<close>

definition pdfStep :: "env \<Rightarrow> string \<Rightarrow> string \<Rightarrow> nat \<Rightarrow> arrays \<Rightarrow> arrays" where
  "pdfStep e presentationId oname i a =
     (let pageNum = i + 1;
          finalFile = joinPath (outputDir presentationId) (slideFileName pageNum);
          url = slideUrl presentationId (slideFileName pageNum);
          pageTitle = ''Page '' @ decimal pageNum @ '' of '' @ oname
      in case raster e pageNum of
           Extracted t \<Rightarrow>
             \<lparr>urls = urls a @ [url],
              texts = texts a @ [orDefault t (''Slide '' @ decimal pageNum)],
              written = (written a)(finalFile \<mapsto> Rendered)\<rparr>
         | TempFileMissing \<Rightarrow>
             \<lparr>urls = urls a @ [url],
              texts = texts a @ [''Slide '' @ decimal pageNum @ '' (Placeholder)''],
              written = snd (createDistinctPlaceholder e finalFile pageNum pageTitle (written a))\<rparr>
         | _ \<Rightarrow>
             \<lparr>urls = urls a @ [url],
              texts = texts a @ [''Slide '' @ decimal pageNum @ '' (Error Placeholder)''],
              written = snd (createDistinctPlaceholder e finalFile pageNum pageTitle (written a))\<rparr>)"

definition pdfSlides :: "env \<Rightarrow> string \<Rightarrow> string \<Rightarrow> nat \<Rightarrow> disk \<Rightarrow> arrays" where
  "pdfSlides e presentationId oname pageCount d =
     fold (pdfStep e presentationId oname) [0..<pageCount] (emptyArrays d)"

text \<open>
  Direct export: the renderer has left the listed \<^verbatim>\<open>.jpg\<close> files in the output
  directory; each is renamed to its canonical name, and a rename that throws leaves the
  file, and its URL, under the original name.
\<close>

definition rendererOutput :: "string \<Rightarrow> string list \<Rightarrow> disk \<Rightarrow> disk" where
  "rendererOutput presentationId imageFiles d =
     fold (\<lambda>name acc. acc(joinPath (outputDir presentationId) name \<mapsto> Rendered)) imageFiles d"

definition renameStep :: "env \<Rightarrow> string \<Rightarrow> nat \<times> string \<Rightarrow> arrays \<Rightarrow> arrays" where
  "renameStep e presentationId entry a =
     (let index = fst entry; name = snd entry;
          oldPath = joinPath (outputDir presentationId) name;
          newFileName = slideFileName (index + 1);
          newPath = joinPath (outputDir presentationId) newFileName
      in if renameThrows e index
         then \<lparr>urls = urls a @ [slideUrl presentationId name],
               texts = texts a @ [''Slide '' @ decimal (index + 1)],
               written = written a\<rparr>
         else \<lparr>urls = urls a @ [slideUrl presentationId newFileName],
               texts = texts a @ [''Slide '' @ decimal (index + 1)],
               written = ((written a)(oldPath := None))(newPath := written a oldPath)\<rparr>)"

definition estimatedSlideCount :: nat where
  "estimatedSlideCount = 23"

text \<open>The padding loop after a single exported image, and the terminal placeholder loop.\<close>

definition distinctStep :: "env \<Rightarrow> string \<Rightarrow> string \<Rightarrow> nat \<Rightarrow> arrays \<Rightarrow> arrays" where
  "distinctStep e presentationId oname i a =
     (let slideNumber = i + 1;
          newFileName = slideFileName slideNumber;
          newPath = joinPath (outputDir presentationId) newFileName
      in \<lparr>urls = urls a @ [slideUrl presentationId newFileName],
          texts = texts a @ [''Slide '' @ decimal slideNumber @ '' (Placeholder)''],
          written = snd (createDistinctPlaceholder e newPath slideNumber oname (written a))\<rparr>)"

definition jpgSlides :: "env \<Rightarrow> string \<Rightarrow> string \<Rightarrow> string list \<Rightarrow> disk \<Rightarrow> arrays" where
  "jpgSlides e presentationId oname imageFiles d =
     (let renamed = fold (renameStep e presentationId) (enumerate 0 imageFiles)
                      (emptyArrays (rendererOutput presentationId imageFiles d))
      in if length imageFiles = 1
         then fold (distinctStep e presentationId oname) [1..<estimatedSlideCount] renamed
         else renamed)"

definition createFallbackPlaceholders :: "env \<Rightarrow> string \<Rightarrow> string \<Rightarrow> disk \<Rightarrow> arrays" where
  "createFallbackPlaceholders e presentationId oname d =
     fold (distinctStep e presentationId oname) [0..<estimatedSlideCount] (emptyArrays d)"

subsection \<open>The strategy chain of \<^verbatim>\<open>POST /convert\<close>\<close>

text \<open>
  Which branch of the handler produces the slides. The renderer counts as unavailable when
  the probe fails and the installation attempt throws or leaves the probe failing. The
  PDF route reaches its page loop when the export succeeds, the directory lists a
  \<^verbatim>\<open>.pdf\<close> file, \<^verbatim>\<open>pdfinfo\<close> reports a positive page count and the \<^verbatim>\<open>temp\<close>
  directory can be made; every other outcome calls \<^verbatim>\<open>fallbackToJpgConversion\<close>, which
  in turn calls \<^verbatim>\<open>createFallbackPlaceholders\<close> when the export fails, the directory
  cannot be read or no \<^verbatim>\<open>.jpg\<close> file is listed.
\<close>

datatype strategy =
    RendererUnavailable
  | PaginateThenRasterize nat
  | DirectExport "string list"
  | PlaceholderFill

definition fallbackToJpgConversion :: "env \<Rightarrow> strategy" where
  "fallbackToJpgConversion e =
     (if jpgExecError e then PlaceholderFill
      else case jpgReaddir e of
        None \<Rightarrow> PlaceholderFill
      | Some listing \<Rightarrow>
          (let imageFiles = filter (\<lambda>name. endsWith name ''.jpg'') listing
           in if length imageFiles = 0 then PlaceholderFill else DirectExport imageFiles))"

definition chooseStrategy :: "env \<Rightarrow> strategy" where
  "chooseStrategy e =
     (if \<not> libreOfficeFound e \<and> (installThrows e \<or> \<not> libreOfficeFoundAfterInstall e)
      then RendererUnavailable
      else if pdfExecError e then fallbackToJpgConversion e
      else case pdfReaddir e of
        None \<Rightarrow> fallbackToJpgConversion e
      | Some listing \<Rightarrow>
          (let pdfFiles = filter (\<lambda>name. endsWith name ''.pdf'') listing
           in if length pdfFiles = 0 then fallbackToJpgConversion e
              else case pdfInfoPages e of
                None \<Rightarrow> fallbackToJpgConversion e
              | Some pageCount \<Rightarrow>
                  if 0 < pageCount
                  then (if mkdirTempThrows e then fallbackToJpgConversion e
                        else PaginateThenRasterize pageCount)
                  else fallbackToJpgConversion e))"

definition requestTopics :: "topics_field \<Rightarrow> string list" where
  "requestTopics t =
     (case t of
        NoTopics \<Rightarrow> []
      | OneTopic x \<Rightarrow> if x = [] then [] else [x]
      | ManyTopics xs \<Rightarrow> xs)"

text \<open>
  The presentation object as the handler initialises it. The four slide fields are
  assigned by every branch before the object is saved; they start here at the schema
  defaults.
\<close>

definition initialPresentation :: "env \<Rightarrow> convert_request \<Rightarrow> upload \<Rightarrow> presentation" where
  "initialPresentation e req f =
     \<lparr>id_p = newPresentationId e,
      originalName = originalname f,
      title = orDefault (body_title req) (stripExtension (originalname f)),
      summary = orDefault (body_summary req) [],
      author = orDefault (body_author req) ''Anonymous'',
      authorId = orDefault (body_authorId req) (newAuthorId e),
      topics = requestTopics (body_topics req),
      slideCount = 0,
      slides = [],
      slideTexts = [],
      converted = now e,
      isPlaceholder = False,
      viewCount = 0,
      isDeleted = False\<rparr>"

text \<open>The slide arrays of the chosen branch.\<close>

definition strategySlides :: "env \<Rightarrow> string \<Rightarrow> string \<Rightarrow> disk \<Rightarrow> strategy \<Rightarrow> arrays" where
  "strategySlides e presentationId oname d st =
     (case st of
        RendererUnavailable \<Rightarrow> genericPlaceholders e presentationId oname d
      | PaginateThenRasterize pageCount \<Rightarrow> pdfSlides e presentationId oname pageCount d
      | DirectExport imageFiles \<Rightarrow> jpgSlides e presentationId oname imageFiles d
      | PlaceholderFill \<Rightarrow> createFallbackPlaceholders e presentationId oname d)"

text \<open>The assignments each branch makes to the presentation object before saving.\<close>

definition withSlides :: "presentation \<Rightarrow> arrays \<Rightarrow> strategy \<Rightarrow> presentation" where
  "withSlides p a st =
     (case st of
        RendererUnavailable \<Rightarrow>
          p\<lparr>slides := urls a, slideCount := placeholderCount, slideTexts := texts a, isPlaceholder := True\<rparr>
      | PaginateThenRasterize pageCount \<Rightarrow>
          p\<lparr>slides := urls a, slideCount := length (urls a), slideTexts := texts a, isPlaceholder := False\<rparr>
      | DirectExport imageFiles \<Rightarrow>
          p\<lparr>slides := urls a, slideCount := length (urls a), slideTexts := texts a, isPlaceholder := False\<rparr>
      | PlaceholderFill \<Rightarrow>
          p\<lparr>slides := urls a, slideCount := estimatedSlideCount, slideTexts := texts a, isPlaceholder := True\<rparr>)"

text \<open>The record a conversion produces, and the slide files after it.\<close>

definition convertedPresentation :: "env \<Rightarrow> convert_request \<Rightarrow> upload \<Rightarrow> disk \<Rightarrow> presentation" where
  "convertedPresentation e req f d =
     withSlides (initialPresentation e req f)
       (strategySlides e (newPresentationId e) (originalname f) d (chooseStrategy e))
       (chooseStrategy e)"

definition convertedFiles :: "env \<Rightarrow> upload \<Rightarrow> disk \<Rightarrow> disk" where
  "convertedFiles e f d =
     written (strategySlides e (newPresentationId e) (originalname f) d (chooseStrategy e))"

subsection \<open>Save, verify, cache, respond\<close>

text \<open>
  The topic-index update of the conversion handler: each topic is lower-cased, its entry
  is created if it reads as undefined, and the id is pushed. The push on an inherited
  property throws a \<^verbatim>\<open>TypeError\<close>: the result says whether it did, and holds the
  index as the loop left it.
\<close>

fun indexTopics ::
  "string \<Rightarrow> string list \<Rightarrow> (string \<rightharpoonup> string list) \<Rightarrow> bool \<times> (string \<rightharpoonup> string list)" where
  "indexTopics presentationId [] idx = (False, idx)"
| "indexTopics presentationId (topic # rest) idx =
     (case getProperty idx (toLowerCase topic) of
        Undefined \<Rightarrow> indexTopics presentationId rest (idx(toLowerCase topic \<mapsto> [presentationId]))
      | Own ids \<Rightarrow> indexTopics presentationId rest (idx(toLowerCase topic \<mapsto> ids @ [presentationId]))
      | Inherited \<Rightarrow> (True, idx))"

definition databaseErrorResponse :: "error \<Rightarrow> string \<Rightarrow> response" where
  "databaseErrorResponse err presentationId = \<lparr>status = 500, body = DatabaseErrorBody err presentationId\<rparr>"

definition successExtras :: "strategy \<Rightarrow> string option \<times> string option" where
  "successExtras st =
     (case st of
        RendererUnavailable \<Rightarrow>
          (Some ''placeholders_created'',
           Some ''LibreOffice is not available. Generated placeholder slides instead.'')
      | PlaceholderFill \<Rightarrow>
          (Some ''fallback_placeholders'',
           Some ''Conversion failed. Generated distinct placeholder slides instead.'')
      | _ \<Rightarrow> (None, None))"

text \<open>
  The success body. Each branch sends the values it has just assigned to the presentation
  object, and the two optional fields only in the placeholder branches.
\<close>

definition successResponse :: "presentation \<Rightarrow> string option \<times> string option \<Rightarrow> response" where
  "successResponse p extras =
     \<lparr>status = 200,
      body = ConvertedBody
        \<lparr>r_id = id_p p, r_originalName = originalName p, r_title = title p,
         r_slideCount = slideCount p, r_slides = slides p, r_slideTexts = slideTexts p,
         r_status = fst extras, r_message = snd extras, r_topics = topics p\<rparr>\<rparr>"

text \<open>
  The \<^verbatim>\<open>try\<close> block that ends each of the four branches: save, verify, then update the
  cache and the topic index and answer; whatever is thrown inside it is answered 500 by
  its \<^verbatim>\<open>catch\<close>.
\<close>

definition saveVerifyCache ::
  "env \<Rightarrow> presentation \<Rightarrow> string option \<times> string option \<Rightarrow> server \<Rightarrow> response \<times> server" where
  "saveVerifyCache e p extras s =
     (case saveToDatabase (saveFindThrows e) (saveWriteThrows e) (db s) p of
        Inl err \<Rightarrow> (databaseErrorResponse err (id_p p), s)
      | Inr (savedPresentation, docs) \<Rightarrow>
          if \<not> verifyDatabaseSave (verifyThrows e) docs (id_p p)
          then (databaseErrorResponse VerificationFailed (id_p p), s\<lparr>db := docs\<rparr>)
          else (let s1 = s\<lparr>db := docs, presentations := (presentations s)(id_p p \<mapsto> savedPresentation)\<rparr>;
                    indexed = indexTopics (id_p p) (topics p) (presentationsByTopic s)
                in if fst indexed
                   then (databaseErrorResponse TypeError (id_p p), s1\<lparr>presentationsByTopic := snd indexed\<rparr>)
                   else (successResponse p extras, s1\<lparr>presentationsByTopic := snd indexed\<rparr>)))"

text \<open>
  The handler creates the output directory outside any \<^verbatim>\<open>try\<close>; if that throws, no
  response is sent.
\<close>

definition convertHandler ::
  "env \<Rightarrow> convert_request \<Rightarrow> upload \<Rightarrow> server \<Rightarrow> response option \<times> server" where
  "convertHandler e req f s =
     (if mkdirOutputThrows e then (None, s)
      else (let answered = saveVerifyCache e (convertedPresentation e req f (files s))
                             (successExtras (chooseStrategy e))
                             (s\<lparr>files := convertedFiles e f (files s)\<rparr>)
            in (Some (fst answered), snd answered)))"

text \<open>\<^verbatim>\<open>POST /convert\<close>: the upload middleware, then the handler.\<close>

definition convert :: "env \<Rightarrow> convert_request \<Rightarrow> server \<Rightarrow> response option \<times> server" where
  "convert e req s =
     (case uploadSingle req of
        Inl message \<Rightarrow> (Some (errorHandler message), s)
      | Inr None \<Rightarrow> (Some \<lparr>status = 400, body = ErrorBody ''No file uploaded''\<rparr>, s)
      | Inr (Some f) \<Rightarrow> convertHandler e req f s)"

subsection \<open>\<^verbatim>\<open>GET /presentation/:id\<close>\<close>

text \<open>The topic-index update with a membership test, as the read path does it.\<close>

fun indexTopicsOnce ::
  "string \<Rightarrow> string list \<Rightarrow> (string \<rightharpoonup> string list) \<Rightarrow> bool \<times> (string \<rightharpoonup> string list)" where
  "indexTopicsOnce presentationId [] idx = (False, idx)"
| "indexTopicsOnce presentationId (topic # rest) idx =
     (case getProperty idx (toLowerCase topic) of
        Undefined \<Rightarrow> indexTopicsOnce presentationId rest (idx(toLowerCase topic \<mapsto> [presentationId]))
      | Own ids \<Rightarrow>
          indexTopicsOnce presentationId rest
            (idx(toLowerCase topic \<mapsto> (if presentationId \<in> set ids then ids else ids @ [presentationId])))
      | Inherited \<Rightarrow> (True, idx))"

text \<open>Adding the id to a user's history; \<open>None\<close> when the lookup yields an inherited property.\<close>

definition recordSeen ::
  "string \<Rightarrow> string \<Rightarrow> (string \<rightharpoonup> string list) \<Rightarrow> (string \<rightharpoonup> string list) option" where
  "recordSeen userId presentationId h =
     (case getProperty h userId of
        Undefined \<Rightarrow> Some (h(userId \<mapsto> [presentationId]))
      | Own seen \<Rightarrow> Some (h(userId \<mapsto> (if presentationId \<in> set seen then seen else seen @ [presentationId])))
      | Inherited \<Rightarrow> None)"

definition incrementViewCount :: "string \<Rightarrow> collection \<Rightarrow> collection" where
  "incrementViewCount presentationId docs =
     updateFirst (hasId presentationId) (\<lambda>d. d\<lparr>viewCount := viewCount d + 1\<rparr>) docs"

definition truthy :: "string option \<Rightarrow> bool" where
  "truthy userId = (case userId of None \<Rightarrow> False | Some u \<Rightarrow> u \<noteq> [])"

text \<open>
  The cache hit: the history is updated, the view count is incremented without waiting
  (a failure is only logged), and the cached value is sent.
\<close>

definition answerFromCache :: "bool \<Rightarrow> string \<Rightarrow> string option \<Rightarrow> body \<Rightarrow> server \<Rightarrow> response option \<times> server" where
  "answerFromCache incrementThrows presentationId userId cachedBody s =
     (if truthy userId
      then (case recordSeen (the userId) presentationId (userPresentationHistory s) of
              None \<Rightarrow> (None, s)
            | Some h \<Rightarrow>
                (Some \<lparr>status = 200, body = cachedBody\<rparr>,
                 s\<lparr>userPresentationHistory := h,
                   db := (if incrementThrows then db s else incrementViewCount presentationId (db s))\<rparr>))
      else (Some \<lparr>status = 200, body = cachedBody\<rparr>, s))"

text \<open>
  The cache miss, inside one \<^verbatim>\<open>try\<close> whose \<^verbatim>\<open>catch\<close> answers 500. \<open>findThrows\<close> and
  \<open>incrementThrows\<close> say whether the lookup and the view-count update raise.
\<close>

definition answerFromDatabase ::
  "bool \<Rightarrow> bool \<Rightarrow> string \<Rightarrow> string option \<Rightarrow> server \<Rightarrow> response option \<times> server" where
  "answerFromDatabase findThrows incrementThrows presentationId userId s =
     (if findThrows then (Some \<lparr>status = 500, body = ErrorBody ''Database error''\<rparr>, s)
      else case findOne (liveWithId presentationId) (db s) of
        None \<Rightarrow> (Some \<lparr>status = 404, body = ErrorBody ''Presentation not found''\<rparr>, s)
      | Some dbPresentation \<Rightarrow>
          (let indexed = indexTopicsOnce presentationId (topics dbPresentation) (presentationsByTopic s);
               s1 = s\<lparr>presentations := (presentations s)(presentationId \<mapsto> dbPresentation),
                      presentationsByTopic := snd indexed\<rparr>
           in if fst indexed then (Some \<lparr>status = 500, body = ErrorBody ''Database error''\<rparr>, s1)
              else if truthy userId
              then (if incrementThrows then (Some \<lparr>status = 500, body = ErrorBody ''Database error''\<rparr>, s1)
                    else (let s2 = s1\<lparr>db := incrementViewCount presentationId (db s1)\<rparr>
                          in case recordSeen (the userId) presentationId (userPresentationHistory s2) of
                               None \<Rightarrow> (Some \<lparr>status = 500, body = ErrorBody ''Database error''\<rparr>, s2)
                             | Some h \<Rightarrow>
                                 (Some \<lparr>status = 200, body = PresentationBody dbPresentation\<rparr>,
                                  s2\<lparr>userPresentationHistory := h\<rparr>)))
              else (Some \<lparr>status = 200, body = PresentationBody dbPresentation\<rparr>, s1)))"

definition getPresentation ::
  "bool \<Rightarrow> bool \<Rightarrow> string \<Rightarrow> string option \<Rightarrow> server \<Rightarrow> response option \<times> server" where
  "getPresentation findThrows incrementThrows presentationId userId s =
     (case getProperty (presentations s) presentationId of
        Own cached \<Rightarrow> answerFromCache incrementThrows presentationId userId (PresentationBody cached) s
      | Inherited \<Rightarrow> answerFromCache incrementThrows presentationId userId InheritedBody s
      | Undefined \<Rightarrow> answerFromDatabase findThrows incrementThrows presentationId userId s)"

subsection \<open>\<^verbatim>\<open>DELETE /presentation/:id\<close>\<close>

text \<open>
  Removing the id from the index entries of the given topics. The \<^verbatim>\<open>filter\<close> call on an
  inherited property throws a \<^verbatim>\<open>TypeError\<close>.
\<close>

fun removeTopics ::
  "string \<Rightarrow> string list \<Rightarrow> (string \<rightharpoonup> string list) \<Rightarrow> bool \<times> (string \<rightharpoonup> string list)" where
  "removeTopics presentationId [] idx = (False, idx)"
| "removeTopics presentationId (topic # rest) idx =
     (case getProperty idx (toLowerCase topic) of
        Undefined \<Rightarrow> removeTopics presentationId rest idx
      | Own ids \<Rightarrow>
          removeTopics presentationId rest (idx(toLowerCase topic \<mapsto> filter (\<lambda>i. i \<noteq> presentationId) ids))
      | Inherited \<Rightarrow> (True, idx))"

definition removeFromHistory :: "string \<Rightarrow> (string \<rightharpoonup> string list) \<Rightarrow> (string \<rightharpoonup> string list)" where
  "removeFromHistory presentationId h = (\<lambda>userId. map_option (filter (\<lambda>i. i \<noteq> presentationId)) (h userId))"

text \<open>
  The block \<^verbatim>\<open>if (presentations[id]) { ... delete presentations[id] }\<close>, which both
  branches of the handler contain: the result says whether it threw. An inherited
  property has no \<^verbatim>\<open>topics\<close>, and deleting it changes nothing.
\<close>

definition removeFromCache :: "string \<Rightarrow> server \<Rightarrow> bool \<times> server" where
  "removeFromCache presentationId s =
     (case getProperty (presentations s) presentationId of
        Own cached \<Rightarrow>
          (let removed = removeTopics presentationId (topics cached) (presentationsByTopic s)
           in if fst removed then (True, s\<lparr>presentationsByTopic := snd removed\<rparr>)
              else (False, s\<lparr>presentationsByTopic := snd removed,
                             presentations := (presentations s)(presentationId := None)\<rparr>))
      | _ \<Rightarrow> (False, s))"

text \<open>
  The \<^verbatim>\<open>catch\<close> branch: a memory-only delete when the id reads as cached, and 500
  otherwise. What the branch itself throws escapes the handler.
\<close>

definition deleteFromMemory :: "string \<Rightarrow> server \<Rightarrow> response option \<times> server" where
  "deleteFromMemory presentationId s =
     (case getProperty (presentations s) presentationId of
        Undefined \<Rightarrow> (Some \<lparr>status = 500, body = ErrorBody ''Server error''\<rparr>, s)
      | _ \<Rightarrow>
          (let removed = removeFromCache presentationId s
           in if fst removed then (None, snd removed)
              else (Some \<lparr>status = 200,
                          body = SuccessBody ''Presentation deleted from memory cache, but database update failed''\<rparr>,
                    (snd removed)\<lparr>userPresentationHistory :=
                                    removeFromHistory presentationId (userPresentationHistory (snd removed))\<rparr>)))"

text \<open>
  \<open>updateThrows\<close> says whether \<^verbatim>\<open>findOneAndUpdate\<close> raises. The \<^verbatim>\<open>try\<close> branch marks
  the document deleted and then clears the memory; an exception in either step runs the
  \<^verbatim>\<open>catch\<close> branch.
\<close>

definition deletePresentation :: "bool \<Rightarrow> string \<Rightarrow> server \<Rightarrow> response option \<times> server" where
  "deletePresentation updateThrows presentationId s =
     (if updateThrows then deleteFromMemory presentationId s
      else case findOne (liveWithId presentationId) (db s) of
        None \<Rightarrow> (Some \<lparr>status = 404, body = ErrorBody ''Presentation not found''\<rparr>, s)
      | Some _ \<Rightarrow>
          (let s1 = s\<lparr>db := updateFirst (liveWithId presentationId) (\<lambda>d. d\<lparr>isDeleted := True\<rparr>) (db s)\<rparr>;
               removed = removeFromCache presentationId s1
           in if fst removed then deleteFromMemory presentationId (snd removed)
              else (Some \<lparr>status = 200, body = SuccessBody ''Presentation deleted''\<rparr>,
                    (snd removed)\<lparr>userPresentationHistory :=
                                    removeFromHistory presentationId (userPresentationHistory (snd removed))\<rparr>)))"

subsection \<open>Reading a decimal back\<close>

definition digit_val :: "char \<Rightarrow> nat" where
  "digit_val c = of_char c - 48"

definition undecimal :: "string \<Rightarrow> nat" where
  "undecimal s = foldl (\<lambda>acc c. 10 * acc + digit_val c) 0 s"

subsection \<open>Synthetic slides\<close>

text \<open>
  A slide is synthetic when the file its URL is served from holds placeholder text, and
  rendered when that file holds renderer output.
\<close>

definition synthetic :: "disk \<Rightarrow> string \<Rightarrow> bool" where
  "synthetic d url = (case d (servedFile url) of Some (Text _) \<Rightarrow> True | _ \<Rightarrow> False)"

definition rasterFailed :: "page_outcome \<Rightarrow> bool" where
  "rasterFailed out = (case out of Extracted _ \<Rightarrow> False | _ \<Rightarrow> True)"

subsection \<open>Example inputs\<close>

definition deck :: presentation where
  "deck = \<lparr>id_p = ''p1'', originalName = ''deck.pptx'', title = ''deck'', summary = [], author = ''Anonymous'',
     authorId = ''a1'', topics = [''AI''], slideCount = 1, slides = [''/slides/p1/slide-1.jpg''],
     slideTexts = [''Slide 1''], converted = 0, isPlaceholder = False, viewCount = 0, isDeleted = False\<rparr>"

text \<open>
  A healthy renderer and a three-page PDF: page 1 is converted, page 2 leaves no image
  file, the conversion of page 3 throws.
\<close>

definition threePages :: env where
  "threePages =
     \<lparr>now = 0, newPresentationId = ''p1'', newAuthorId = ''a1'', mkdirOutputThrows = False,
      libreOfficeFound = True, installThrows = False, libreOfficeFoundAfterInstall = True,
      pdfExecError = False, pdfReaddir = Some [''Deck.pdf''], pdfInfoPages = Some 3,
      mkdirTempThrows = False,
      raster = (\<lambda>n. if n = 1 then Extracted (Some ''Intro'') else if n = 2 then TempFileMissing else ExecThrows),
      jpgExecError = False, jpgReaddir = Some [''Deck.jpg'', ''notes.txt'', ''Deck2.jpg''],
      renameThrows = (\<lambda>i. i = 0),
      writeFileThrows = (\<lambda>_. False),
      saveFindThrows = False, saveWriteThrows = False, verifyThrows = False\<rparr>"

text \<open>The renderer is absent and cannot be installed.\<close>

definition noRenderer :: env where
  "noRenderer = threePages\<lparr>libreOfficeFound := False, installThrows := True\<rparr>"

text \<open>
  The PDF export fails; the direct export leaves two images and a text file, and renaming
  the first image throws.
\<close>

definition directExport :: env where
  "directExport = threePages\<lparr>pdfExecError := True\<rparr>"

text \<open>The read-back after the save throws.\<close>

definition verifyFails :: env where
  "verifyFails = threePages\<lparr>verifyThrows := True\<rparr>"

definition deckUpload :: upload where
  "deckUpload = \<lparr>originalname = ''Deck.PPTX'', size_bytes = 1000\<rparr>"

definition deckRequest :: convert_request where
  "deckRequest =
     \<lparr>req_file = Some deckUpload, body_title = None, body_summary = None,
      body_author = None, body_authorId = None, body_topics = OneTopic ''AI''\<rparr>"

definition textRequest :: convert_request where
  "textRequest = deckRequest\<lparr>req_file := Some \<lparr>originalname = ''notes.txt'', size_bytes = 10\<rparr>\<rparr>"

definition hugeRequest :: convert_request where
  "hugeRequest = deckRequest\<lparr>req_file := Some \<lparr>originalname = ''big.pptx'', size_bytes = 52428801\<rparr>\<rparr>"

text \<open>The deck again, filed under the topic \<^verbatim>\<open>constructor\<close>.\<close>

definition constructorRequest :: convert_request where
  "constructorRequest = deckRequest\<lparr>body_topics := OneTopic ''constructor''\<rparr>"

definition noFileRequest :: convert_request where
  "noFileRequest = deckRequest\<lparr>req_file := None\<rparr>"

definition emptyServer :: server where
  "emptyServer =
     \<lparr>db = [], presentations = Map.empty, presentationsByTopic = Map.empty,
      userPresentationHistory = Map.empty, files = Map.empty\<rparr>"

text \<open>The server after the three-page deck has been converted.\<close>

definition deckServer :: server where
  "deckServer = snd (convert threePages deckRequest emptyServer)"

text \<open>The server after the deck with the topic \<^verbatim>\<open>constructor\<close> has been submitted.\<close>

definition constructorServer :: server where
  "constructorServer = snd (convert threePages constructorRequest emptyServer)"

text \<open>The definitions that evaluate the model on a concrete input.\<close>

lemmas model_defs =
  digit_char_def decimal.simps lower_char_def toLowerCase_def endsWith_def extname_def
  stripExtension_def orDefault_def findOne_def hasId_def liveWithId_def saveToDatabase_def
  verifyDatabaseSave_def recordsWithId_def allowedExtensions_def fileFilter_def
  fileSizeLimit_def uploadSingle_def errorHandler_def newline_def genericText_def
  distinctText_def createPlaceholderImage_def createDistinctPlaceholder_def outputDir_def
  joinPath_def slideFileName_def slideUrl_def servedFile_def emptyArrays_def
  placeholderCount_def genericStep_def genericPlaceholders_def pdfStep_def pdfSlides_def
  rendererOutput_def renameStep_def estimatedSlideCount_def distinctStep_def jpgSlides_def
  createFallbackPlaceholders_def fallbackToJpgConversion_def chooseStrategy_def requestTopics_def
  initialPresentation_def strategySlides_def withSlides_def convertedPresentation_def
  convertedFiles_def objectPrototypeNames_def getProperty_def databaseErrorResponse_def
  successExtras_def
  successResponse_def saveVerifyCache_def convertHandler_def convert_def recordSeen_def
  incrementViewCount_def truthy_def answerFromCache_def answerFromDatabase_def
  getPresentation_def removeFromHistory_def removeFromCache_def deleteFromMemory_def
  deletePresentation_def synthetic_def
  rasterFailed_def Let_def upt_rec

lemmas example_defs =
  deck_def threePages_def noRenderer_def directExport_def verifyFails_def deckUpload_def
  deckRequest_def textRequest_def hugeRequest_def noFileRequest_def constructorRequest_def
  emptyServer_def deckServer_def constructorServer_def

section \<open>Properties\<close>

subsection \<open>The collection\<close>

lemma findOne_updateFirst_same:
  "findOne flt docs = Some d \<Longrightarrow> flt (upd d) \<Longrightarrow> findOne flt (updateFirst flt upd docs) = Some (upd d)"
  by (induction docs) (auto simp: findOne_def)

lemma updateFirst_filter_length:
  "(\<And>d. flt d \<Longrightarrow> flt (upd d)) \<Longrightarrow>
   length (filter flt (updateFirst flt upd docs)) = length (filter flt docs)"
  by (induction docs) auto

lemma updateFirst_idem:
  "findOne flt docs = Some d \<Longrightarrow> upd d = d \<Longrightarrow> updateFirst flt upd docs = docs"
  by (induction docs) (auto simp: findOne_def split: if_splits)

lemma findOne_None_filter: "findOne flt docs = None \<Longrightarrow> filter flt docs = []"
  by (induction docs) (auto simp: findOne_def split: if_splits)

lemma findOne_append_new:
  "findOne flt docs = None \<Longrightarrow> flt d \<Longrightarrow> findOne flt (docs @ [d]) = Some d"
  by (induction docs) (auto simp: findOne_def split: if_splits)

lemma length_updateFirst: "length (updateFirst flt upd docs) = length docs"
  by (induction docs) auto

lemma distinct_ids_one_record:
  "distinct (map id_p docs) \<Longrightarrow> findOne (hasId i) docs = Some d \<Longrightarrow> recordsWithId i docs = 1"
proof (induction docs)
  case Nil
  then show ?case by (simp add: findOne_def)
next
  case (Cons a docs)
  show ?case
  proof (cases "hasId i a")
    case True
    then have "filter (hasId i) docs = []"
      using Cons.prems(1) by (auto simp: hasId_def filter_empty_conv image_iff)
    with True show ?thesis by (simp add: recordsWithId_def)
  next
    case False
    with Cons show ?thesis by (simp add: recordsWithId_def findOne_def)
  qed
qed

lemma liveWithId_fun: "liveWithId pid = (\<lambda>a. id_p a = pid \<and> \<not> isDeleted a)"
  by (rule ext) (simp add: liveWithId_def)

lemma hasId_fun: "hasId pid = (\<lambda>a. id_p a = pid)"
  by (rule ext) (simp add: hasId_def)

lemma softDelete_findOne:
  "distinct (map id_p docs) \<Longrightarrow> findOne (liveWithId pid) docs = Some d \<Longrightarrow>
   findOne (liveWithId pid) (updateFirst (liveWithId pid) (\<lambda>d. d\<lparr>isDeleted := True\<rparr>) docs) = None \<and>
   findOne (hasId pid) (updateFirst (liveWithId pid) (\<lambda>d. d\<lparr>isDeleted := True\<rparr>) docs) = Some (d\<lparr>isDeleted := True\<rparr>)"
proof (induction docs)
  case Nil
  then show ?case by (simp add: findOne_def)
next
  case (Cons a docs)
  show ?case
  proof (cases "id_p a = pid \<and> \<not> isDeleted a")
    case True
    with Cons.prems have "a = d" by (simp add: findOne_def liveWithId_fun)
    moreover from True Cons.prems(1) have "\<forall>x \<in> set docs. id_p x \<noteq> pid"
      by (auto simp: image_iff)
    then have "find (\<lambda>a. id_p a = pid \<and> \<not> isDeleted a) docs = None"
      by (auto simp: find_None_iff)
    ultimately show ?thesis using True
      by (simp add: findOne_def liveWithId_fun hasId_fun)
  next
    case False
    with Cons.prems have f: "findOne (liveWithId pid) docs = Some d"
      by (simp add: findOne_def liveWithId_fun)
    then have "d \<in> set docs" "id_p d = pid"
      by (auto simp: findOne_def find_Some_iff liveWithId_fun)
    with Cons.prems(1) have n: "id_p a \<noteq> pid" by (auto simp: image_iff)
    from Cons.prems(1) have "distinct (map id_p docs)" by simp
    from Cons.IH [OF this f] n False show ?thesis
      by (simp add: findOne_def liveWithId_fun hasId_fun)
  qed
qed

lemma saveToDatabase_eq:
  "saveToDatabase ft wt docs p =
     (if ft \<or> wt then Inl DatabaseError
      else Inr (p, case findOne (hasId (id_p p)) docs of
                     None \<Rightarrow> docs @ [p]
                   | Some _ \<Rightarrow> updateFirst (hasId (id_p p)) (\<lambda>_. p) docs))"
proof (cases "findOne (hasId (id_p p)) docs")
  case None
  then show ?thesis by (simp add: saveToDatabase_def)
next
  case (Some x)
  have "findOne (hasId (id_p p)) (updateFirst (hasId (id_p p)) (\<lambda>_. p) docs) = Some p"
    using findOne_updateFirst_same [OF Some, of "\<lambda>_. p"] by (simp add: hasId_def)
  with Some show ?thesis by (simp add: saveToDatabase_def Let_def)
qed

lemma findOne_after_save:
  "saveToDatabase ft wt docs p = Inr (r, docs') \<Longrightarrow> findOne (hasId (id_p p)) docs' = Some p \<and> r = p"
proof (cases "findOne (hasId (id_p p)) docs")
  case None
  assume "saveToDatabase ft wt docs p = Inr (r, docs')"
  with None have "docs' = docs @ [p]" "r = p"
    by (auto simp: saveToDatabase_eq split: if_splits)
  moreover from None have "findOne (hasId (id_p p)) (docs @ [p]) = Some p"
    by (rule findOne_append_new) (simp add: hasId_def)
  ultimately show ?thesis by simp
next
  case (Some x)
  assume "saveToDatabase ft wt docs p = Inr (r, docs')"
  with Some have "docs' = updateFirst (hasId (id_p p)) (\<lambda>_. p) docs" "r = p"
    by (auto simp: saveToDatabase_eq split: if_splits)
  moreover have "findOne (hasId (id_p p)) (updateFirst (hasId (id_p p)) (\<lambda>_. p) docs) = Some p"
    using findOne_updateFirst_same [OF Some, of "\<lambda>_. p"] by (simp add: hasId_def)
  ultimately show ?thesis by simp
qed

lemma save_once:
  assumes "distinct (map id_p docs)"
    and "saveToDatabase ft wt docs p = Inr (r, docs')"
  shows "findOne (hasId (id_p p)) docs' = Some p \<and> recordsWithId (id_p p) docs' = 1 \<and> r = p"
proof (cases "findOne (hasId (id_p p)) docs")
  case None
  with assms(2) have d: "docs' = docs @ [p]" and r: "r = p"
    by (auto simp: saveToDatabase_def split: if_splits)
  from None have "findOne (hasId (id_p p)) (docs @ [p]) = Some p"
    by (rule findOne_append_new) (simp add: hasId_def)
  moreover from None have "recordsWithId (id_p p) (docs @ [p]) = 1"
    by (simp add: recordsWithId_def findOne_None_filter hasId_def)
  ultimately show ?thesis using d r by simp
next
  case (Some x)
  let ?u = "updateFirst (hasId (id_p p)) (\<lambda>_. p) docs"
  have f: "findOne (hasId (id_p p)) ?u = Some p"
    using findOne_updateFirst_same [OF Some, of "\<lambda>_. p"] by (simp add: hasId_def)
  with Some assms(2) have d: "docs' = ?u" and r: "r = p"
    by (auto simp: saveToDatabase_def Let_def split: if_splits)
  have "recordsWithId (id_p p) ?u = recordsWithId (id_p p) docs"
    unfolding recordsWithId_def by (rule updateFirst_filter_length) (simp add: hasId_def)
  also have "\<dots> = 1"
    using assms(1) Some by (rule distinct_ids_one_record)
  finally show ?thesis using f d r by simp
qed

subsection \<open>Decimal numbers and slide paths\<close>

lemma digit_val_digit_char: "d < 10 \<Longrightarrow> digit_val (digit_char d) = d"
proof -
  assume "d < 10"
  then have "d = 0 \<or> d = 1 \<or> d = 2 \<or> d = 3 \<or> d = 4 \<or> d = 5 \<or> d = 6 \<or> d = 7 \<or> d = 8 \<or> d = 9"
    by arith
  then show ?thesis
    by (elim disjE) (simp_all add: digit_val_def digit_char_def)
qed

lemma undecimal_decimal: "undecimal (decimal n) = n"
proof (induction n rule: decimal.induct)
  case (1 n)
  show ?case
  proof (cases "n < 10")
    case True
    then show ?thesis
      by (subst decimal.simps) (simp add: undecimal_def digit_val_digit_char)
  next
    case False
    then have "undecimal (decimal (n div 10)) = n div 10" using 1 by simp
    with False show ?thesis
      by (subst decimal.simps) (simp add: undecimal_def digit_val_digit_char)
  qed
qed

lemma decimal_inj: "decimal m = decimal n \<Longrightarrow> m = n"
  by (metis undecimal_decimal)

lemma slideFileName_inj: "slideFileName m = slideFileName n \<Longrightarrow> m = n"
  by (simp add: slideFileName_def decimal_inj)

lemma slidePath_inj: "joinPath dir (slideFileName m) = joinPath dir (slideFileName n) \<longleftrightarrow> m = n"
  by (auto simp: joinPath_def dest: slideFileName_inj)

lemma slideUrl_canonical:
  "slideUrl pid (slideFileName n) = ''/slides/'' @ pid @ ''/slide-'' @ decimal n @ ''.jpg''"
  by (simp add: slideUrl_def slideFileName_def)

lemma slidePath_canonical:
  "joinPath (outputDir pid) (slideFileName n) = ''public/slides/'' @ pid @ ''/slide-'' @ decimal n @ ''.jpg''"
  by (simp add: joinPath_def outputDir_def slideFileName_def)

lemma servedFile_slideUrl: "servedFile (slideUrl pid name) = joinPath (outputDir pid) name"
  by (simp add: servedFile_def slideUrl_def joinPath_def outputDir_def)

subsection \<open>The slide arrays of each strategy\<close>

lemma fold_urls:
  assumes "\<And>x a. urls (step x a) = urls a @ [u x]"
  shows "urls (fold step xs a) = urls a @ map u xs"
  using assms by (induction xs arbitrary: a) simp_all

lemma fold_texts:
  assumes "\<And>x a. texts (step x a) = texts a @ [t x]"
  shows "texts (fold step xs a) = texts a @ map t xs"
  using assms by (induction xs arbitrary: a) simp_all

lemma urls_genericStep:
  "urls (genericStep e pid oname i a) = urls a @ [slideUrl pid (slideFileName (i + 1))]"
  by (simp add: genericStep_def Let_def)

lemma texts_genericStep:
  "texts (genericStep e pid oname i a) = texts a @ [''Slide '' @ decimal (i + 1) @ '' (Placeholder)'']"
  by (simp add: genericStep_def Let_def)

lemma urls_pdfStep:
  "urls (pdfStep e pid oname i a) = urls a @ [slideUrl pid (slideFileName (i + 1))]"
  by (simp add: pdfStep_def Let_def split: page_outcome.splits)

lemma texts_pdfStep:
  "texts (pdfStep e pid oname i a) = texts a @
     [case raster e (i + 1) of
        Extracted t \<Rightarrow> orDefault t (''Slide '' @ decimal (i + 1))
      | TempFileMissing \<Rightarrow> ''Slide '' @ decimal (i + 1) @ '' (Placeholder)''
      | _ \<Rightarrow> ''Slide '' @ decimal (i + 1) @ '' (Error Placeholder)'']"
  by (simp add: pdfStep_def Let_def split: page_outcome.splits)

lemma urls_renameStep:
  "urls (renameStep e pid x a) = urls a @
     [if renameThrows e (fst x) then slideUrl pid (snd x) else slideUrl pid (slideFileName (fst x + 1))]"
  by (simp add: renameStep_def Let_def)

lemma texts_renameStep:
  "texts (renameStep e pid x a) = texts a @ [''Slide '' @ decimal (fst x + 1)]"
  by (simp add: renameStep_def Let_def)

lemma urls_distinctStep:
  "urls (distinctStep e pid oname i a) = urls a @ [slideUrl pid (slideFileName (i + 1))]"
  by (simp add: distinctStep_def Let_def)

lemma texts_distinctStep:
  "texts (distinctStep e pid oname i a) = texts a @ [''Slide '' @ decimal (i + 1) @ '' (Placeholder)'']"
  by (simp add: distinctStep_def Let_def)

lemma urls_genericPlaceholders:
  "urls (genericPlaceholders e pid oname d) = map (\<lambda>i. slideUrl pid (slideFileName (i + 1))) [0..<placeholderCount]"
  by (simp add: genericPlaceholders_def emptyArrays_def fold_urls [OF urls_genericStep])

lemma texts_genericPlaceholders:
  "texts (genericPlaceholders e pid oname d) =
     map (\<lambda>i. ''Slide '' @ decimal (i + 1) @ '' (Placeholder)'') [0..<placeholderCount]"
  by (simp add: genericPlaceholders_def emptyArrays_def fold_texts [OF texts_genericStep])

lemma urls_pdfSlides:
  "urls (pdfSlides e pid oname n d) = map (\<lambda>i. slideUrl pid (slideFileName (i + 1))) [0..<n]"
  by (simp add: pdfSlides_def emptyArrays_def fold_urls [OF urls_pdfStep])

lemma texts_pdfSlides:
  "texts (pdfSlides e pid oname n d) =
     map (\<lambda>i. case raster e (i + 1) of
        Extracted t \<Rightarrow> orDefault t (''Slide '' @ decimal (i + 1))
      | TempFileMissing \<Rightarrow> ''Slide '' @ decimal (i + 1) @ '' (Placeholder)''
      | _ \<Rightarrow> ''Slide '' @ decimal (i + 1) @ '' (Error Placeholder)'') [0..<n]"
  by (simp add: pdfSlides_def emptyArrays_def fold_texts [OF texts_pdfStep])

lemma urls_fallbackPlaceholders:
  "urls (createFallbackPlaceholders e pid oname d) = map (\<lambda>i. slideUrl pid (slideFileName (i + 1))) [0..<estimatedSlideCount]"
  by (simp add: createFallbackPlaceholders_def emptyArrays_def fold_urls [OF urls_distinctStep])

lemma texts_fallbackPlaceholders:
  "texts (createFallbackPlaceholders e pid oname d) =
     map (\<lambda>i. ''Slide '' @ decimal (i + 1) @ '' (Placeholder)'') [0..<estimatedSlideCount]"
  by (simp add: createFallbackPlaceholders_def emptyArrays_def fold_texts [OF texts_distinctStep])

lemma urls_jpgSlides:
  "urls (jpgSlides e pid oname imageFiles d) =
     map (\<lambda>x. if renameThrows e (fst x) then slideUrl pid (snd x) else slideUrl pid (slideFileName (fst x + 1)))
       (enumerate 0 imageFiles)
     @ (if length imageFiles = 1 then map (\<lambda>i. slideUrl pid (slideFileName (i + 1))) [1..<estimatedSlideCount] else [])"
  by (simp add: jpgSlides_def emptyArrays_def Let_def fold_urls [OF urls_renameStep] fold_urls [OF urls_distinctStep])

lemma texts_jpgSlides:
  "texts (jpgSlides e pid oname imageFiles d) =
     map (\<lambda>x. ''Slide '' @ decimal (fst x + 1)) (enumerate 0 imageFiles)
     @ (if length imageFiles = 1 then map (\<lambda>i. ''Slide '' @ decimal (i + 1) @ '' (Placeholder)'') [1..<estimatedSlideCount] else [])"
  by (simp add: jpgSlides_def emptyArrays_def Let_def fold_texts [OF texts_renameStep] fold_texts [OF texts_distinctStep])

lemma nth_urls_pdfSlides:
  "i < N \<Longrightarrow> urls (pdfSlides e pid oname N d) ! i = ''/slides/'' @ pid @ ''/slide-'' @ decimal (i + 1) @ ''.jpg''"
  by (simp add: urls_pdfSlides slideUrl_canonical)

lemma nth_texts_pdfSlides:
  "i < N \<Longrightarrow> texts (pdfSlides e pid oname N d) ! i =
     (case raster e (i + 1) of
        Extracted t \<Rightarrow> orDefault t (''Slide '' @ decimal (i + 1))
      | TempFileMissing \<Rightarrow> ''Slide '' @ decimal (i + 1) @ '' (Placeholder)''
      | _ \<Rightarrow> ''Slide '' @ decimal (i + 1) @ '' (Error Placeholder)'')"
  by (simp add: texts_pdfSlides split: page_outcome.splits)

lemma nth_urls_jpgSlides:
  assumes "i < length (urls (jpgSlides e pid oname imageFiles d))"
  shows "urls (jpgSlides e pid oname imageFiles d) ! i =
     (if i < length imageFiles \<and> renameThrows e i then ''/slides/'' @ pid @ ''/'' @ imageFiles ! i
      else ''/slides/'' @ pid @ ''/slide-'' @ decimal (i + 1) @ ''.jpg'')"
proof (cases "i < length imageFiles")
  case True
  then show ?thesis
    by (simp add: urls_jpgSlides nth_append nth_enumerate_eq slideUrl_canonical) (simp add: slideUrl_def)
next
  case False
  with assms have one: "length imageFiles = 1" and b: "i - 1 < estimatedSlideCount - 1" and i: "1 \<le> i"
    by (auto simp: urls_jpgSlides split: if_splits)
  from False one b i show ?thesis
    by (simp add: urls_jpgSlides nth_append slideUrl_canonical)
qed

lemma strategy_lengths:
  "length (texts (strategySlides e pid oname d st)) = length (urls (strategySlides e pid oname d st))"
  by (cases st)
     (simp_all add: strategySlides_def urls_genericPlaceholders texts_genericPlaceholders
        urls_pdfSlides texts_pdfSlides urls_jpgSlides texts_jpgSlides
        urls_fallbackPlaceholders texts_fallbackPlaceholders)

lemma strategy_slideCount:
  "slideCount (withSlides p (strategySlides e pid oname d st) st) = length (urls (strategySlides e pid oname d st))"
  by (cases st)
     (simp_all add: strategySlides_def withSlides_def urls_genericPlaceholders urls_fallbackPlaceholders)

lemma slides_withSlides: "slides (withSlides p a st) = urls a"
  by (cases st) (simp_all add: withSlides_def)

lemma slideTexts_withSlides: "slideTexts (withSlides p a st) = texts a"
  by (cases st) (simp_all add: withSlides_def)

lemma converted_lengths:
  "length (slides (convertedPresentation e req f d)) = slideCount (convertedPresentation e req f d) \<and>
   length (slideTexts (convertedPresentation e req f d)) = slideCount (convertedPresentation e req f d)"
  by (simp add: convertedPresentation_def slides_withSlides slideTexts_withSlides strategy_slideCount strategy_lengths)

lemma id_withSlides: "id_p (withSlides p a st) = id_p p"
  by (cases st) (simp_all add: withSlides_def)

lemma id_convertedPresentation: "id_p (convertedPresentation e req f d) = newPresentationId e"
  by (simp add: convertedPresentation_def id_withSlides initialPresentation_def)

lemma chooseStrategy_unavailable:
  "chooseStrategy e = RendererUnavailable \<longleftrightarrow>
     \<not> libreOfficeFound e \<and> (installThrows e \<or> \<not> libreOfficeFoundAfterInstall e)"
  by (auto simp: chooseStrategy_def fallbackToJpgConversion_def Let_def split: option.splits if_splits)

lemma chooseStrategy_pdf:
  "chooseStrategy e = PaginateThenRasterize N \<Longrightarrow> pdfInfoPages e = Some N \<and> 0 < N"
  by (auto simp: chooseStrategy_def fallbackToJpgConversion_def Let_def split: option.splits if_splits)

subsection \<open>The slide files of each strategy\<close>

lemma fold_written_other:
  assumes step: "\<And>j a q. written (step j a) q = (if q = P j then W j (written a q) else written a q)"
  shows "(\<forall>i. m \<le> i \<and> i < n \<longrightarrow> q \<noteq> P i) \<Longrightarrow> written (fold step [m..<n] a) q = written a q"
proof (induction n)
  case 0
  then show ?case by simp
next
  case (Suc n)
  show ?case
  proof (cases "m \<le> n")
    case True
    with Suc show ?thesis by (simp add: step)
  next
    case False
    then show ?thesis by simp
  qed
qed

lemma fold_written_own:
  assumes step: "\<And>j a q. written (step j a) q = (if q = P j then W j (written a q) else written a q)"
    and inj: "\<And>j k. P j = P k \<Longrightarrow> j = k"
  shows "m \<le> i \<Longrightarrow> i < n \<Longrightarrow> written (fold step [m..<n] a) (P i) = W i (written a (P i))"
proof (induction n)
  case 0
  then show ?case by simp
next
  case (Suc n)
  from Suc.prems have mn: "m \<le> n" by simp
  show ?case
  proof (cases "i = n")
    case True
    have "\<forall>j. m \<le> j \<and> j < n \<longrightarrow> P n \<noteq> P j"
      using inj by auto
    then have "written (fold step [m..<n] a) (P n) = written a (P n)"
      by (rule fold_written_other [OF step])
    with True mn show ?thesis by (simp add: step)
  next
    case False
    with Suc.prems have "i < n" by simp
    with Suc.IH Suc.prems(1) have "written (fold step [m..<n] a) (P i) = W i (written a (P i))" by simp
    moreover from False inj have "P i \<noteq> P n" by auto
    ultimately show ?thesis using mn by (simp add: step)
  qed
qed

lemma written_genericStep:
  "written (genericStep e pid oname j a) q =
     (if q = joinPath (outputDir pid) (slideFileName (j + 1))
      then (if writeFileThrows e (joinPath (outputDir pid) (slideFileName (j + 1))) then written a q
            else Some (Text (genericText (j + 1) oname)))
      else written a q)"
  by (simp add: genericStep_def createPlaceholderImage_def Let_def)

lemma written_distinctStep:
  "written (distinctStep e pid oname j a) q =
     (if q = joinPath (outputDir pid) (slideFileName (j + 1))
      then (if writeFileThrows e (joinPath (outputDir pid) (slideFileName (j + 1))) then written a q
            else Some (Text (distinctText (j + 1) oname)))
      else written a q)"
  by (simp add: distinctStep_def createDistinctPlaceholder_def Let_def)

lemma written_pdfStep:
  "written (pdfStep e pid oname j a) q =
     (if q = joinPath (outputDir pid) (slideFileName (j + 1))
      then (case raster e (j + 1) of
              Extracted t \<Rightarrow> Some Rendered
            | _ \<Rightarrow> if writeFileThrows e (joinPath (outputDir pid) (slideFileName (j + 1))) then written a q
                   else Some (Text (distinctText (j + 1) (''Page '' @ decimal (j + 1) @ '' of '' @ oname))))
      else written a q)"
  by (simp add: pdfStep_def createDistinctPlaceholder_def Let_def split: page_outcome.splits)

lemma written_genericPlaceholders:
  "i < placeholderCount \<Longrightarrow>
   written (genericPlaceholders e pid oname d) (joinPath (outputDir pid) (slideFileName (i + 1))) =
     (if writeFileThrows e (joinPath (outputDir pid) (slideFileName (i + 1)))
      then d (joinPath (outputDir pid) (slideFileName (i + 1)))
      else Some (Text (genericText (i + 1) oname)))"
  unfolding genericPlaceholders_def
  by (subst fold_written_own
        [where P = "\<lambda>j. joinPath (outputDir pid) (slideFileName (j + 1))"
           and W = "\<lambda>j old. if writeFileThrows e (joinPath (outputDir pid) (slideFileName (j + 1))) then old
                             else Some (Text (genericText (j + 1) oname))"])
     (simp_all add: written_genericStep slidePath_inj emptyArrays_def)

lemma written_fallbackPlaceholders:
  "i < estimatedSlideCount \<Longrightarrow>
   written (createFallbackPlaceholders e pid oname d) (joinPath (outputDir pid) (slideFileName (i + 1))) =
     (if writeFileThrows e (joinPath (outputDir pid) (slideFileName (i + 1)))
      then d (joinPath (outputDir pid) (slideFileName (i + 1)))
      else Some (Text (distinctText (i + 1) oname)))"
  unfolding createFallbackPlaceholders_def
  by (subst fold_written_own
        [where P = "\<lambda>j. joinPath (outputDir pid) (slideFileName (j + 1))"
           and W = "\<lambda>j old. if writeFileThrows e (joinPath (outputDir pid) (slideFileName (j + 1))) then old
                             else Some (Text (distinctText (j + 1) oname))"])
     (simp_all add: written_distinctStep slidePath_inj emptyArrays_def)

lemma written_pdfSlides:
  "i < n \<Longrightarrow>
   written (pdfSlides e pid oname n d) (joinPath (outputDir pid) (slideFileName (i + 1))) =
     (case raster e (i + 1) of
        Extracted t \<Rightarrow> Some Rendered
      | _ \<Rightarrow> if writeFileThrows e (joinPath (outputDir pid) (slideFileName (i + 1)))
             then d (joinPath (outputDir pid) (slideFileName (i + 1)))
             else Some (Text (distinctText (i + 1) (''Page '' @ decimal (i + 1) @ '' of '' @ oname))))"
  unfolding pdfSlides_def
  by (subst fold_written_own
        [where P = "\<lambda>j. joinPath (outputDir pid) (slideFileName (j + 1))"
           and W = "\<lambda>j old. case raster e (j + 1) of
                      Extracted t \<Rightarrow> Some Rendered
                    | _ \<Rightarrow> if writeFileThrows e (joinPath (outputDir pid) (slideFileName (j + 1))) then old
                           else Some (Text (distinctText (j + 1) (''Page '' @ decimal (j + 1) @ '' of '' @ oname)))"])
     (simp_all add: written_pdfStep slidePath_inj emptyArrays_def split: page_outcome.splits)

lemma file_pdfSlides:
  "i < N \<Longrightarrow>
   written (pdfSlides e pid oname N d) (''public/slides/'' @ pid @ ''/slide-'' @ decimal (i + 1) @ ''.jpg'') =
     (case raster e (i + 1) of
        Extracted t \<Rightarrow> Some Rendered
      | _ \<Rightarrow> if writeFileThrows e (''public/slides/'' @ pid @ ''/slide-'' @ decimal (i + 1) @ ''.jpg'')
             then d (''public/slides/'' @ pid @ ''/slide-'' @ decimal (i + 1) @ ''.jpg'')
             else Some (Text (distinctText (i + 1) (''Page '' @ decimal (i + 1) @ '' of '' @ oname))))"
  using written_pdfSlides [of i N e pid oname d] by (simp only: slidePath_canonical)

lemma synthetic_generic:
  assumes "chooseStrategy e = RendererUnavailable" and "i < 5"
    and "\<not> writeFileThrows e (servedFile (slides (convertedPresentation e req f d) ! i))"
  shows "synthetic (convertedFiles e f d) (slides (convertedPresentation e req f d) ! i)"
proof -
  from assms(1,2) have u: "slides (convertedPresentation e req f d) ! i = slideUrl (newPresentationId e) (slideFileName (i + 1))"
    by (simp add: convertedPresentation_def strategySlides_def withSlides_def urls_genericPlaceholders
        placeholderCount_def)
  from assms(2) have "i < placeholderCount" by (simp add: placeholderCount_def)
  from written_genericPlaceholders [OF this, of e "newPresentationId e" "originalname f" d] assms(3)
  show ?thesis
    by (simp add: u synthetic_def servedFile_slideUrl convertedFiles_def assms(1) strategySlides_def)
qed

lemma synthetic_fallback:
  assumes "chooseStrategy e = PlaceholderFill" and "i < 23"
    and "\<not> writeFileThrows e (servedFile (slides (convertedPresentation e req f d) ! i))"
  shows "synthetic (convertedFiles e f d) (slides (convertedPresentation e req f d) ! i)"
proof -
  from assms(1,2) have u: "slides (convertedPresentation e req f d) ! i = slideUrl (newPresentationId e) (slideFileName (i + 1))"
    by (simp add: convertedPresentation_def strategySlides_def withSlides_def urls_fallbackPlaceholders
        estimatedSlideCount_def)
  from assms(2) have "i < estimatedSlideCount" by (simp add: estimatedSlideCount_def)
  from written_fallbackPlaceholders [OF this, of e "newPresentationId e" "originalname f" d] assms(3)
  show ?thesis
    by (simp add: u synthetic_def servedFile_slideUrl convertedFiles_def assms(1) strategySlides_def)
qed

subsection \<open>Save, verify, cache\<close>

lemma saveVerifyCache_200:
  "status (fst (saveVerifyCache e p extras s)) = 200 \<Longrightarrow>
   fst (saveVerifyCache e p extras s) = successResponse p extras"
  by (auto simp: saveVerifyCache_def databaseErrorResponse_def Let_def split: sum.splits prod.splits if_splits)

lemma saveVerifyCache_fault:
  "saveFindThrows e \<or> saveWriteThrows e \<or> verifyThrows e \<Longrightarrow>
   (\<exists>err. fst (saveVerifyCache e p extras s) = \<lparr>status = 500, body = DatabaseErrorBody err (id_p p)\<rparr>) \<and>
   presentations (snd (saveVerifyCache e p extras s)) = presentations s \<and>
   presentationsByTopic (snd (saveVerifyCache e p extras s)) = presentationsByTopic s"
  by (auto simp: saveVerifyCache_def saveToDatabase_eq verifyDatabaseSave_def databaseErrorResponse_def)

lemma saveVerifyCache_changed:
  assumes "presentations (snd (saveVerifyCache e p extras s)) \<noteq> presentations s \<or>
           presentationsByTopic (snd (saveVerifyCache e p extras s)) \<noteq> presentationsByTopic s"
  shows "\<not> saveFindThrows e \<and> \<not> saveWriteThrows e \<and> \<not> verifyThrows e \<and>
         findOne (hasId (id_p p)) (db (snd (saveVerifyCache e p extras s))) = Some p"
proof -
  from assms obtain r docs where sv: "saveToDatabase (saveFindThrows e) (saveWriteThrows e) (db s) p = Inr (r, docs)"
    and vf: "verifyDatabaseSave (verifyThrows e) docs (id_p p)"
    by (auto simp: saveVerifyCache_def split: sum.splits prod.splits if_splits)
  from sv have nf: "\<not> saveFindThrows e \<and> \<not> saveWriteThrows e"
    by (auto simp: saveToDatabase_eq split: if_splits)
  from vf have nv: "\<not> verifyThrows e"
    by (auto simp: verifyDatabaseSave_def split: if_splits)
  from findOne_after_save [OF sv] sv vf nf nv show ?thesis
    by (simp add: saveVerifyCache_def Let_def)
qed

lemma saveVerifyCache_ok:
  assumes "status (fst (saveVerifyCache e p extras s)) = 200"
  shows "presentations (snd (saveVerifyCache e p extras s)) (id_p p) = Some p"
proof -
  from assms obtain r docs where sv: "saveToDatabase (saveFindThrows e) (saveWriteThrows e) (db s) p = Inr (r, docs)"
    and vf: "verifyDatabaseSave (verifyThrows e) docs (id_p p)"
    and ix: "\<not> fst (indexTopics (id_p p) (topics p) (presentationsByTopic s))"
    by (auto simp: saveVerifyCache_def databaseErrorResponse_def Let_def split: sum.splits prod.splits if_splits)
  from findOne_after_save [OF sv] sv vf ix show ?thesis
    by (simp add: saveVerifyCache_def Let_def)
qed

subsection \<open>Clearing the memory on deletion\<close>

lemma removeTopics_keeps_None:
  "snd (removeTopics pid ts idx) k = None \<longleftrightarrow> idx k = None"
  by (induction ts arbitrary: idx) (auto simp: getProperty_def split: option.splits if_splits)

lemma removeTopics_throws_iff:
  "fst (removeTopics pid ts idx) \<longleftrightarrow>
     (\<exists>t \<in> set ts. idx (toLowerCase t) = None \<and> toLowerCase t \<in> set objectPrototypeNames)"
proof (induction ts arbitrary: idx)
  case Nil
  then show ?case by simp
next
  case (Cons t ts)
  show ?case
  proof (cases "getProperty idx (toLowerCase t)")
    case (Own ids)
    then have own: "idx (toLowerCase t) = Some ids"
      by (auto simp: getProperty_def split: option.splits if_splits)
    have a: "fst (removeTopics pid (t # ts) idx) =
               fst (removeTopics pid ts (idx(toLowerCase t \<mapsto> filter (\<lambda>i. i \<noteq> pid) ids)))"
      using Own by simp
    have b: "fst (removeTopics pid ts (idx(toLowerCase t \<mapsto> filter (\<lambda>i. i \<noteq> pid) ids))) \<longleftrightarrow>
       (\<exists>t' \<in> set ts. (idx(toLowerCase t \<mapsto> filter (\<lambda>i. i \<noteq> pid) ids)) (toLowerCase t') = None \<and>
           toLowerCase t' \<in> set objectPrototypeNames)"
      by (rule Cons.IH)
    have c: "\<And>k. (idx(toLowerCase t \<mapsto> filter (\<lambda>i. i \<noteq> pid) ids)) k = None \<longleftrightarrow> idx k = None"
      using own by simp
    show ?thesis
      unfolding a b c using own by simp
  next
    case Inherited
    then show ?thesis
      by (auto simp: getProperty_def split: option.splits if_splits)
  next
    case Undefined
    then have "idx (toLowerCase t) = None" "toLowerCase t \<notin> set objectPrototypeNames"
      by (auto simp: getProperty_def split: option.splits if_splits)
    with Undefined Cons.IH [of idx] show ?thesis by auto
  qed
qed

lemma removeTopics_throws_again:
  "fst (removeTopics pid ts idx) \<Longrightarrow> fst (removeTopics pid ts (snd (removeTopics pid ts idx)))"
  by (simp add: removeTopics_throws_iff removeTopics_keeps_None)

lemma removeTopics_keeps_absent:
  "(\<forall>ids. idx k = Some ids \<longrightarrow> pid \<notin> set ids) \<Longrightarrow>
   (\<forall>ids. snd (removeTopics pid ts idx) k = Some ids \<longrightarrow> pid \<notin> set ids)"
proof (induction ts arbitrary: idx)
  case Nil
  then show ?case by simp
next
  case (Cons t ts)
  show ?case
  proof (cases "getProperty idx (toLowerCase t)")
    case (Own ids)
    from Cons.prems have "\<forall>ids'. (idx(toLowerCase t \<mapsto> filter (\<lambda>i. i \<noteq> pid) ids)) k = Some ids' \<longrightarrow> pid \<notin> set ids'"
      by auto
    then have "\<forall>ids'. snd (removeTopics pid ts (idx(toLowerCase t \<mapsto> filter (\<lambda>i. i \<noteq> pid) ids))) k = Some ids'
                 \<longrightarrow> pid \<notin> set ids'"
      by (rule Cons.IH)
    with Own show ?thesis by simp
  next
    case Inherited
    with Cons.prems show ?thesis by simp
  next
    case Undefined
    from Cons.prems have "\<forall>ids'. snd (removeTopics pid ts idx) k = Some ids' \<longrightarrow> pid \<notin> set ids'"
      by (rule Cons.IH)
    with Undefined show ?thesis by simp
  qed
qed

lemma removeTopics_clears:
  "\<not> fst (removeTopics pid ts idx) \<Longrightarrow> t \<in> set ts \<Longrightarrow>
   (\<forall>ids. snd (removeTopics pid ts idx) (toLowerCase t) = Some ids \<longrightarrow> pid \<notin> set ids)"
proof (induction ts arbitrary: idx)
  case Nil
  then show ?case by simp
next
  case (Cons x ts)
  show ?case
  proof (cases "getProperty idx (toLowerCase x)")
    case (Own ids)
    let ?idx = "idx(toLowerCase x \<mapsto> filter (\<lambda>i. i \<noteq> pid) ids)"
    from Own Cons.prems(1) have nt: "\<not> fst (removeTopics pid ts ?idx)" by simp
    show ?thesis
    proof (cases "toLowerCase t = toLowerCase x")
      case True
      have "\<forall>ids'. ?idx (toLowerCase t) = Some ids' \<longrightarrow> pid \<notin> set ids'"
        using True by auto
      then have "\<forall>ids'. snd (removeTopics pid ts ?idx) (toLowerCase t) = Some ids' \<longrightarrow> pid \<notin> set ids'"
        by (rule removeTopics_keeps_absent)
      with Own show ?thesis by simp
    next
      case False
      with Cons.prems(2) have "t \<in> set ts" by auto
      with nt have "\<forall>ids'. snd (removeTopics pid ts ?idx) (toLowerCase t) = Some ids' \<longrightarrow> pid \<notin> set ids'"
        by (rule Cons.IH)
      with Own show ?thesis by simp
    qed
  next
    case Inherited
    with Cons.prems(1) show ?thesis by simp
  next
    case Undefined
    then have u: "idx (toLowerCase x) = None"
      by (auto simp: getProperty_def split: option.splits if_splits)
    from Undefined Cons.prems(1) have nt: "\<not> fst (removeTopics pid ts idx)" by simp
    show ?thesis
    proof (cases "toLowerCase t = toLowerCase x")
      case True
      with u have "snd (removeTopics pid ts idx) (toLowerCase t) = None"
        by (simp add: removeTopics_keeps_None)
      with Undefined show ?thesis by simp
    next
      case False
      with Cons.prems(2) have "t \<in> set ts" by auto
      with nt have "\<forall>ids'. snd (removeTopics pid ts idx) (toLowerCase t) = Some ids' \<longrightarrow> pid \<notin> set ids'"
        by (rule Cons.IH)
      with Undefined show ?thesis by simp
    qed
  qed
qed

lemma removeFromHistory_clears:
  "removeFromHistory pid h u = Some ids \<Longrightarrow> pid \<notin> set ids"
  by (auto simp: removeFromHistory_def)

lemma removeFromCache_fields:
  "db (snd (removeFromCache pid s)) = db s \<and> files (snd (removeFromCache pid s)) = files s \<and>
   userPresentationHistory (snd (removeFromCache pid s)) = userPresentationHistory s"
  by (simp add: removeFromCache_def Let_def split: property.splits)

lemma removeFromCache_done:
  "\<not> fst (removeFromCache pid s) \<Longrightarrow> presentations (snd (removeFromCache pid s)) pid = None"
  by (auto simp: removeFromCache_def getProperty_def Let_def split: property.splits option.splits if_splits)

lemma removeFromCache_throws_again:
  assumes "fst (removeFromCache pid s)"
  shows "fst (removeFromCache pid (snd (removeFromCache pid s))) \<and>
         getProperty (presentations (snd (removeFromCache pid s))) pid \<noteq> Undefined"
proof -
  from assms obtain cached where c: "presentations s pid = Some cached"
    and t: "fst (removeTopics pid (topics cached) (presentationsByTopic s))"
    by (auto simp: removeFromCache_def getProperty_def Let_def split: property.splits option.splits if_splits)
  from c t removeTopics_throws_again [OF t] show ?thesis
    by (simp add: removeFromCache_def getProperty_def Let_def)
qed

lemma deleteFromMemory_after_throw:
  "fst (removeFromCache pid s) \<Longrightarrow> fst (deleteFromMemory pid (snd (removeFromCache pid s))) = None"
  using removeFromCache_throws_again [of pid s]
  by (auto simp: deleteFromMemory_def Let_def split: property.splits)

subsection \<open>The example server\<close>

lemma deckServer_db:
  "db deckServer = [convertedPresentation threePages deckRequest deckUpload Map.empty]"
  by (simp add: model_defs example_defs)

lemma deckServer_cache:
  "presentations deckServer ''p1'' = Some (convertedPresentation threePages deckRequest deckUpload Map.empty)"
  by (simp add: model_defs example_defs)

lemma deckServer_index: "presentationsByTopic deckServer = [''ai'' \<mapsto> [''p1'']]"
  by (simp add: model_defs example_defs)

lemma deck_live:
  "id_p (convertedPresentation threePages deckRequest deckUpload Map.empty) = ''p1'' \<and>
   \<not> isDeleted (convertedPresentation threePages deckRequest deckUpload Map.empty) \<and>
   topics (convertedPresentation threePages deckRequest deckUpload Map.empty) = [''AI'']"
  by (simp add: model_defs example_defs)

lemma deckServer_file: "files deckServer ''public/slides/p1/slide-1.jpg'' = Some Rendered"
  by (simp add: model_defs example_defs)

lemma deckServer_live:
  "findOne (liveWithId ''p1'') (db deckServer) =
     Some (convertedPresentation threePages deckRequest deckUpload Map.empty)"
  using deck_live by (simp add: deckServer_db findOne_def liveWithId_def)

lemma deckServer_delete:
  "fst (deletePresentation False ''p1'' deckServer) =
     Some \<lparr>status = 200, body = SuccessBody ''Presentation deleted''\<rparr>"
  using deckServer_live deckServer_cache deckServer_index deck_live
  by (simp add: deletePresentation_def removeFromCache_def getProperty_def objectPrototypeNames_def
      toLowerCase_def lower_char_def Let_def)

lemma convert_verifyFails:
  "convert verifyFails deckRequest emptyServer =
     (fst (convert verifyFails deckRequest emptyServer), snd (convert verifyFails deckRequest emptyServer))"
  by simp

lemma convert_threePages:
  "convert threePages deckRequest emptyServer =
     (fst (convert threePages deckRequest emptyServer), snd (convert threePages deckRequest emptyServer))"
  by simp

section \<open>The claims\<close>

subsection \<open>C1: the cache follows a verified save\<close>

text \<open>
  Claim C1. For every \<^verbatim>\<open>POST /convert\<close> request: if the in-memory cache or the topic
  index differs after the request, then neither the save nor the read-back failed and the
  new record is in the collection; if the request reaches the save (the upload is
  accepted and the output directory is created) and the save's lookup, the save's write
  or the read-back throws, the response is the 500 database-error body carrying the new
  id, and the cache and the topic index are as they were; and after a 200 response the
  record is in the cache under its id.
\<close>

theorem convert_cache_after_verified_save:
  assumes "convert e req s = (resp, s')"
  shows "(presentations s' \<noteq> presentations s \<or> presentationsByTopic s' \<noteq> presentationsByTopic s \<longrightarrow>
            \<not> saveFindThrows e \<and> \<not> saveWriteThrows e \<and> \<not> verifyThrows e \<and>
            (\<exists>f. uploadSingle req = Inr (Some f) \<and>
                 findOne (hasId (newPresentationId e)) (db s') = Some (convertedPresentation e req f (files s)))) \<and>
         ((\<exists>f. uploadSingle req = Inr (Some f)) \<and> \<not> mkdirOutputThrows e \<and>
          (saveFindThrows e \<or> saveWriteThrows e \<or> verifyThrows e) \<longrightarrow>
            (\<exists>err. resp = Some \<lparr>status = 500, body = DatabaseErrorBody err (newPresentationId e)\<rparr>) \<and>
            presentations s' = presentations s \<and> presentationsByTopic s' = presentationsByTopic s) \<and>
         ((\<exists>r. resp = Some r \<and> status r = 200) \<longrightarrow>
            (\<exists>f. uploadSingle req = Inr (Some f) \<and>
                 presentations s' (newPresentationId e) = Some (convertedPresentation e req f (files s))))"
proof (cases "uploadSingle req")
  case (Inl msg)
  with assms show ?thesis by (auto simp: convert_def errorHandler_def)
next
  case (Inr fo)
  show ?thesis
  proof (cases fo)
    case None
    with Inr assms show ?thesis by (auto simp: convert_def)
  next
    case (Some f)
    let ?p = "convertedPresentation e req f (files s)"
    let ?r = "saveVerifyCache e ?p (successExtras (chooseStrategy e)) (s\<lparr>files := convertedFiles e f (files s)\<rparr>)"
    show ?thesis
    proof (cases "mkdirOutputThrows e")
      case True
      with assms Inr Some show ?thesis by (auto simp: convert_def convertHandler_def)
    next
      case False
      with assms Inr Some have r: "resp = Some (fst ?r)" "s' = snd ?r"
        by (auto simp: convert_def convertHandler_def Let_def)
      have a: "presentations s' \<noteq> presentations s \<or> presentationsByTopic s' \<noteq> presentationsByTopic s \<longrightarrow>
            \<not> saveFindThrows e \<and> \<not> saveWriteThrows e \<and> \<not> verifyThrows e \<and>
            findOne (hasId (newPresentationId e)) (db s') = Some ?p"
        using saveVerifyCache_changed [of e ?p _ "s\<lparr>files := convertedFiles e f (files s)\<rparr>"] r
        by (simp add: id_convertedPresentation)
      have b: "saveFindThrows e \<or> saveWriteThrows e \<or> verifyThrows e \<longrightarrow>
            (\<exists>err. resp = Some \<lparr>status = 500, body = DatabaseErrorBody err (newPresentationId e)\<rparr>) \<and>
            presentations s' = presentations s \<and> presentationsByTopic s' = presentationsByTopic s"
        using saveVerifyCache_fault [of e ?p _ "s\<lparr>files := convertedFiles e f (files s)\<rparr>"] r
        by (simp add: id_convertedPresentation)
      have c: "(\<exists>r. resp = Some r \<and> status r = 200) \<longrightarrow> presentations s' (newPresentationId e) = Some ?p"
        using saveVerifyCache_ok [of e ?p _ "s\<lparr>files := convertedFiles e f (files s)\<rparr>"] r
        by (simp add: id_convertedPresentation)
      from a b c Inr Some show ?thesis by blast
    qed
  qed
qed

text \<open>
  The read-back throws: status 500, cache and index untouched. Nothing fails: status 200,
  and the record is in the collection and in the cache.
\<close>

theorem convert_cache_after_verified_save_witness:
  "uploadSingle deckRequest = Inr (Some deckUpload) \<and>
   \<not> mkdirOutputThrows verifyFails \<and> verifyThrows verifyFails \<and>
   fst (convert verifyFails deckRequest emptyServer) =
     Some \<lparr>status = 500, body = DatabaseErrorBody VerificationFailed ''p1''\<rparr> \<and>
   presentations (snd (convert verifyFails deckRequest emptyServer)) = presentations emptyServer \<and>
   presentationsByTopic (snd (convert verifyFails deckRequest emptyServer)) = presentationsByTopic emptyServer \<and>
   status (the (fst (convert threePages deckRequest emptyServer))) = 200 \<and>
   presentations (snd (convert threePages deckRequest emptyServer)) ''p1'' =
     Some (convertedPresentation threePages deckRequest deckUpload Map.empty) \<and>
   presentations (snd (convert threePages deckRequest emptyServer)) \<noteq> presentations emptyServer \<and>
   findOne (hasId ''p1'') (db (snd (convert threePages deckRequest emptyServer))) =
     Some (convertedPresentation threePages deckRequest deckUpload Map.empty)"
proof -
  have u: "uploadSingle deckRequest = Inr (Some deckUpload)"
    by (simp add: model_defs example_defs)
  have v: "verifyThrows verifyFails" "newPresentationId verifyFails = ''p1''" "\<not> mkdirOutputThrows verifyFails"
    by (simp_all add: example_defs)
  have b: "fst (convert verifyFails deckRequest emptyServer) =
     Some \<lparr>status = 500, body = DatabaseErrorBody VerificationFailed ''p1''\<rparr>"
    by (simp add: model_defs example_defs)
  have ok: "\<exists>r. fst (convert threePages deckRequest emptyServer) = Some r \<and> status r = 200"
    by (simp add: model_defs example_defs)
  have t: "newPresentationId threePages = ''p1''" "files emptyServer = Map.empty"
    "presentations emptyServer ''p1'' = None"
    by (simp_all add: example_defs)
  note t1 = convert_cache_after_verified_save [OF convert_verifyFails, unfolded v(2)]
  note t2 = convert_cache_after_verified_save [OF convert_threePages, unfolded t(1,2)]
  from t1 [THEN conjunct2, THEN conjunct1] u v(1,3)
  have f: "presentations (snd (convert verifyFails deckRequest emptyServer)) = presentations emptyServer \<and>
     presentationsByTopic (snd (convert verifyFails deckRequest emptyServer)) = presentationsByTopic emptyServer"
    by blast
  from t2 [THEN conjunct2, THEN conjunct2] ok u
  have c: "presentations (snd (convert threePages deckRequest emptyServer)) ''p1'' =
     Some (convertedPresentation threePages deckRequest deckUpload Map.empty)"
    by auto
  with t(3) have n: "presentations (snd (convert threePages deckRequest emptyServer)) \<noteq> presentations emptyServer"
    by (metis option.distinct(1))
  with t2 [THEN conjunct1] u
  have d: "findOne (hasId ''p1'') (db (snd (convert threePages deckRequest emptyServer))) =
     Some (convertedPresentation threePages deckRequest deckUpload Map.empty)"
    by auto
  from ok have k: "status (the (fst (convert threePages deckRequest emptyServer))) = 200"
    by auto
  from f have f1: "presentations (snd (convert verifyFails deckRequest emptyServer)) = presentations emptyServer"
    and f2: "presentationsByTopic (snd (convert verifyFails deckRequest emptyServer)) = presentationsByTopic emptyServer"
    by (rule conjunct1, rule conjunct2)
  show ?thesis
    by (intro conjI) (rule u v(3) v(1) b f1 f2 k c n d)+
qed

subsection \<open>C2: renderer unavailable\<close>

text \<open>
  The claim as written asks for 23 placeholder slides. With the renderer absent and not
  installable, the first branch of the handler runs with \<open>placeholderCount = 5\<close>: the
  record has five slides and no sixth file is written.
\<close>

theorem renderer_unavailable_counterexample:
  "\<not> libreOfficeFound noRenderer \<and> installThrows noRenderer \<and>
   isPlaceholder (convertedPresentation noRenderer deckRequest deckUpload Map.empty) \<and>
   slideCount (convertedPresentation noRenderer deckRequest deckUpload Map.empty) = 5 \<and>
   slideCount (convertedPresentation noRenderer deckRequest deckUpload Map.empty) \<noteq> 23 \<and>
   length (slides (convertedPresentation noRenderer deckRequest deckUpload Map.empty)) = 5 \<and>
   convertedFiles noRenderer deckUpload Map.empty ''public/slides/p1/slide-6.jpg'' = None"
  by (simp add: model_defs example_defs)

text \<open>
  Claim C2, amended. When the renderer probe fails and the installation attempt throws or
  leaves the probe failing, the record has \<open>isPlaceholder\<close> set and \<open>slideCount = 5\<close>; its
  five URLs are the canonical ones, its texts are \<^verbatim>\<open>Slide n (Placeholder)\<close>, and each
  slide file whose write does not throw holds the generic placeholder text for its
  number.
\<close>

theorem renderer_unavailable_placeholders:
  assumes "\<not> libreOfficeFound e" and "installThrows e \<or> \<not> libreOfficeFoundAfterInstall e"
  shows "isPlaceholder (convertedPresentation e req f d) \<and>
         slideCount (convertedPresentation e req f d) = 5 \<and>
         slides (convertedPresentation e req f d) =
           map (\<lambda>i. ''/slides/'' @ newPresentationId e @ ''/slide-'' @ decimal (i + 1) @ ''.jpg'') [0..<5] \<and>
         slideTexts (convertedPresentation e req f d) =
           map (\<lambda>i. ''Slide '' @ decimal (i + 1) @ '' (Placeholder)'') [0..<5] \<and>
         (\<forall>i<5. \<not> writeFileThrows e (''public/slides/'' @ newPresentationId e @ ''/slide-'' @ decimal (i + 1) @ ''.jpg'') \<longrightarrow>
            convertedFiles e f d (''public/slides/'' @ newPresentationId e @ ''/slide-'' @ decimal (i + 1) @ ''.jpg'') =
              Some (Text (genericText (i + 1) (originalname f))))"
proof -
  from assms have st: "chooseStrategy e = RendererUnavailable"
    by (simp add: chooseStrategy_unavailable)
  have "\<forall>i<5. \<not> writeFileThrows e (''public/slides/'' @ newPresentationId e @ ''/slide-'' @ decimal (i + 1) @ ''.jpg'') \<longrightarrow>
            convertedFiles e f d (''public/slides/'' @ newPresentationId e @ ''/slide-'' @ decimal (i + 1) @ ''.jpg'') =
              Some (Text (genericText (i + 1) (originalname f)))"
    using written_genericPlaceholders [of _ e "newPresentationId e" "originalname f" d]
    by (simp add: convertedFiles_def st strategySlides_def slidePath_canonical placeholderCount_def)
  then show ?thesis
    by (simp add: convertedPresentation_def st strategySlides_def withSlides_def
        urls_genericPlaceholders texts_genericPlaceholders slideUrl_canonical placeholderCount_def)
qed

text \<open>
  The renderer is absent and the installation throws; the fifth slide file holds the
  generic text.
\<close>

theorem renderer_unavailable_placeholders_witness:
  "\<not> libreOfficeFound noRenderer \<and> installThrows noRenderer \<and>
   isPlaceholder (convertedPresentation noRenderer deckRequest deckUpload Map.empty) \<and>
   slideCount (convertedPresentation noRenderer deckRequest deckUpload Map.empty) = 5 \<and>
   slideTexts (convertedPresentation noRenderer deckRequest deckUpload Map.empty) ! 4 = ''Slide 5 (Placeholder)'' \<and>
   \<not> writeFileThrows noRenderer ''public/slides/p1/slide-5.jpg'' \<and>
   convertedFiles noRenderer deckUpload Map.empty ''public/slides/p1/slide-5.jpg'' =
     Some (Text (genericText 5 ''Deck.PPTX''))"
proof -
  have a: "\<not> libreOfficeFound noRenderer" and b: "installThrows noRenderer \<or> \<not> libreOfficeFoundAfterInstall noRenderer"
    by (simp_all add: example_defs)
  have c: "newPresentationId noRenderer = ''p1''" "originalname deckUpload = ''Deck.PPTX''"
    "\<not> writeFileThrows noRenderer ''public/slides/p1/slide-5.jpg''" "installThrows noRenderer"
    by (simp_all add: example_defs)
  have d: "decimal (4 + 1) = ''5''" "(4::nat) < 5"
    by (simp_all add: decimal.simps digit_char_def)
  note t = renderer_unavailable_placeholders [OF a b, of deckRequest deckUpload Map.empty]
  from t have "isPlaceholder (convertedPresentation noRenderer deckRequest deckUpload Map.empty)"
    and "slideCount (convertedPresentation noRenderer deckRequest deckUpload Map.empty) = 5"
    and "slideTexts (convertedPresentation noRenderer deckRequest deckUpload Map.empty) =
           map (\<lambda>i. ''Slide '' @ decimal (i + 1) @ '' (Placeholder)'') [0..<5]"
    by blast+
  moreover from t have "\<forall>i<5. \<not> writeFileThrows noRenderer (''public/slides/'' @ newPresentationId noRenderer @ ''/slide-'' @ decimal (i + 1) @ ''.jpg'') \<longrightarrow>
            convertedFiles noRenderer deckUpload Map.empty (''public/slides/'' @ newPresentationId noRenderer @ ''/slide-'' @ decimal (i + 1) @ ''.jpg'') =
              Some (Text (genericText (i + 1) (originalname deckUpload)))"
    by blast
  then have "convertedFiles noRenderer deckUpload Map.empty ''public/slides/p1/slide-5.jpg'' = Some (Text (genericText 5 ''Deck.PPTX''))"
    using c d by (auto dest!: spec [of _ 4])
  ultimately show ?thesis using a c d by simp
qed

subsection \<open>C3: equal lengths\<close>

text \<open>
  Claim C3. Every response of \<^verbatim>\<open>POST /convert\<close> with status 200, whichever strategy
  produced it, carries a \<open>slides\<close> array and a \<open>slideTexts\<close> array whose lengths both
  equal \<open>slideCount\<close>.
\<close>

theorem convert_success_lengths:
  assumes "convert e req s = (Some resp, s')" and "status resp = 200"
  shows "\<exists>b. body resp = ConvertedBody b \<and>
             length (r_slides b) = r_slideCount b \<and> length (r_slideTexts b) = r_slideCount b"
proof -
  from assms obtain f where f: "uploadSingle req = Inr (Some f)"
    by (auto simp: convert_def errorHandler_def split: sum.splits option.splits)
  let ?p = "convertedPresentation e req f (files s)"
  let ?r = "saveVerifyCache e ?p (successExtras (chooseStrategy e)) (s\<lparr>files := convertedFiles e f (files s)\<rparr>)"
  from assms(1) f have "resp = fst ?r"
    by (auto simp: convert_def convertHandler_def Let_def split: if_splits)
  with assms(2) have "resp = successResponse ?p (successExtras (chooseStrategy e))"
    by (simp add: saveVerifyCache_200)
  then show ?thesis
    using converted_lengths [of e req f "files s"] by (simp add: successResponse_def)
qed

text \<open>
  The three-page deck converts with status 200 and three slides.
\<close>

theorem convert_success_lengths_witness:
  "fst (convert threePages deckRequest emptyServer) = Some (the (fst (convert threePages deckRequest emptyServer))) \<and>
   status (the (fst (convert threePages deckRequest emptyServer))) = 200 \<and>
   (\<exists>b. body (the (fst (convert threePages deckRequest emptyServer))) = ConvertedBody b \<and>
        length (r_slides b) = r_slideCount b \<and> length (r_slideTexts b) = r_slideCount b \<and> r_slideCount b = 3)"
proof -
  have some: "fst (convert threePages deckRequest emptyServer) = Some (the (fst (convert threePages deckRequest emptyServer)))"
    by (simp add: model_defs example_defs)
  have ok: "status (the (fst (convert threePages deckRequest emptyServer))) = 200"
    by (simp add: model_defs example_defs)
  have n: "length (r_slides (case body (the (fst (convert threePages deckRequest emptyServer))) of ConvertedBody b \<Rightarrow> b)) = 3"
    by (simp add: model_defs example_defs)
  have c: "convert threePages deckRequest emptyServer =
     (Some (the (fst (convert threePages deckRequest emptyServer))), snd (convert threePages deckRequest emptyServer))"
    using some by (metis prod.collapse)
  from convert_success_lengths [OF c ok] n ok some show ?thesis by auto
qed

subsection \<open>C4: the PDF strategy\<close>

text \<open>
  The claim as written gives every failed page the text
  \<^verbatim>\<open>Slide n (Error Placeholder)\<close>. Page 2 of the three-page deck fails because the
  rasterizer returns without leaving an image file; the page gets a distinct placeholder,
  and its text is \<^verbatim>\<open>Slide 2 (Placeholder)\<close>.
\<close>

theorem pdf_missing_image_counterexample:
  "chooseStrategy threePages = PaginateThenRasterize 3 \<and>
   rasterFailed (raster threePages 2) \<and>
   slideTexts (convertedPresentation threePages deckRequest deckUpload Map.empty) ! 1 = ''Slide 2 (Placeholder)'' \<and>
   slideTexts (convertedPresentation threePages deckRequest deckUpload Map.empty) ! 1 \<noteq> ''Slide 2 (Error Placeholder)'' \<and>
   convertedFiles threePages deckUpload Map.empty ''public/slides/p1/slide-2.jpg'' =
     Some (Text (distinctText 2 ''Page 2 of Deck.PPTX''))"
  by (simp add: model_defs example_defs)

text \<open>
  Claim C4, amended. When the PDF strategy reaches its page loop with page count \<open>N\<close>,
  then \<open>N\<close> is the positive count \<^verbatim>\<open>pdfinfo\<close> reported, \<open>slideCount = N\<close>, and both
  arrays have length \<open>N\<close>. Every page \<open>n\<close> from 1 to \<open>N\<close> is processed on its own: its
  URL is the canonical one; a page whose conversion or copy throws gets the text
  \<^verbatim>\<open>Slide n (Error Placeholder)\<close>, a page whose image file is missing gets
  \<^verbatim>\<open>Slide n (Placeholder)\<close>, and in both cases its file, if the write does not throw,
  holds the distinct placeholder text for \<open>n\<close>; a converted page gets its extracted text,
  or \<^verbatim>\<open>Slide n\<close> when extraction throws or yields nothing, and its file is the
  rendered image.
\<close>

theorem pdf_strategy_slides:
  assumes "chooseStrategy e = PaginateThenRasterize N"
  shows "pdfInfoPages e = Some N \<and> 0 < N \<and>
         slideCount (convertedPresentation e req f d) = N \<and>
         length (slides (convertedPresentation e req f d)) = N \<and>
         length (slideTexts (convertedPresentation e req f d)) = N \<and>
         \<not> isPlaceholder (convertedPresentation e req f d) \<and>
         (\<forall>n. 1 \<le> n \<and> n \<le> N \<longrightarrow>
            slides (convertedPresentation e req f d) ! (n - 1) =
              ''/slides/'' @ newPresentationId e @ ''/slide-'' @ decimal n @ ''.jpg'' \<and>
            slideTexts (convertedPresentation e req f d) ! (n - 1) =
              (case raster e n of
                 Extracted t \<Rightarrow> orDefault t (''Slide '' @ decimal n)
               | TempFileMissing \<Rightarrow> ''Slide '' @ decimal n @ '' (Placeholder)''
               | _ \<Rightarrow> ''Slide '' @ decimal n @ '' (Error Placeholder)'') \<and>
            convertedFiles e f d (''public/slides/'' @ newPresentationId e @ ''/slide-'' @ decimal n @ ''.jpg'') =
              (case raster e n of
                 Extracted t \<Rightarrow> Some Rendered
               | _ \<Rightarrow> if writeFileThrows e (''public/slides/'' @ newPresentationId e @ ''/slide-'' @ decimal n @ ''.jpg'')
                      then d (''public/slides/'' @ newPresentationId e @ ''/slide-'' @ decimal n @ ''.jpg'')
                      else Some (Text (distinctText n (''Page '' @ decimal n @ '' of '' @ originalname f)))))"
proof -
  let ?p = "convertedPresentation e req f d"
  let ?a = "pdfSlides e (newPresentationId e) (originalname f) N d"
  have s: "slides ?p = urls ?a" and t: "slideTexts ?p = texts ?a"
    and c: "slideCount ?p = length (urls ?a)" and ph: "\<not> isPlaceholder ?p"
    by (simp_all add: convertedPresentation_def assms strategySlides_def withSlides_def)
  have w: "convertedFiles e f d = written ?a"
    by (simp add: convertedFiles_def assms strategySlides_def)
  have lu: "length (urls ?a) = N" and lt: "length (texts ?a) = N"
    by (simp_all add: urls_pdfSlides texts_pdfSlides)
  have pages: "\<forall>n. 1 \<le> n \<and> n \<le> N \<longrightarrow>
            slides ?p ! (n - 1) = ''/slides/'' @ newPresentationId e @ ''/slide-'' @ decimal n @ ''.jpg'' \<and>
            slideTexts ?p ! (n - 1) =
              (case raster e n of
                 Extracted t \<Rightarrow> orDefault t (''Slide '' @ decimal n)
               | TempFileMissing \<Rightarrow> ''Slide '' @ decimal n @ '' (Placeholder)''
               | _ \<Rightarrow> ''Slide '' @ decimal n @ '' (Error Placeholder)'') \<and>
            convertedFiles e f d (''public/slides/'' @ newPresentationId e @ ''/slide-'' @ decimal n @ ''.jpg'') =
              (case raster e n of
                 Extracted t \<Rightarrow> Some Rendered
               | _ \<Rightarrow> if writeFileThrows e (''public/slides/'' @ newPresentationId e @ ''/slide-'' @ decimal n @ ''.jpg'')
                      then d (''public/slides/'' @ newPresentationId e @ ''/slide-'' @ decimal n @ ''.jpg'')
                      else Some (Text (distinctText n (''Page '' @ decimal n @ '' of '' @ originalname f))))"
  proof (intro allI impI)
    fix n
    assume "1 \<le> n \<and> n \<le> N"
    then obtain i where n: "n = i + 1" and i: "i < N"
      by (cases n) auto
    from nth_urls_pdfSlides [OF i, of e "newPresentationId e" "originalname f" d]
      nth_texts_pdfSlides [OF i, of e "newPresentationId e" "originalname f" d]
      file_pdfSlides [OF i, of e "newPresentationId e" "originalname f" d]
    show "slides ?p ! (n - 1) = ''/slides/'' @ newPresentationId e @ ''/slide-'' @ decimal n @ ''.jpg'' \<and>
            slideTexts ?p ! (n - 1) =
              (case raster e n of
                 Extracted t \<Rightarrow> orDefault t (''Slide '' @ decimal n)
               | TempFileMissing \<Rightarrow> ''Slide '' @ decimal n @ '' (Placeholder)''
               | _ \<Rightarrow> ''Slide '' @ decimal n @ '' (Error Placeholder)'') \<and>
            convertedFiles e f d (''public/slides/'' @ newPresentationId e @ ''/slide-'' @ decimal n @ ''.jpg'') =
              (case raster e n of
                 Extracted t \<Rightarrow> Some Rendered
               | _ \<Rightarrow> if writeFileThrows e (''public/slides/'' @ newPresentationId e @ ''/slide-'' @ decimal n @ ''.jpg'')
                      then d (''public/slides/'' @ newPresentationId e @ ''/slide-'' @ decimal n @ ''.jpg'')
                      else Some (Text (distinctText n (''Page '' @ decimal n @ '' of '' @ originalname f))))"
      unfolding s t w n add_diff_cancel_right' by blast
  qed
  from chooseStrategy_pdf [OF assms] have "pdfInfoPages e = Some N \<and> 0 < N" .
  moreover have "slideCount ?p = N" "length (slides ?p) = N" "length (slideTexts ?p) = N"
    by (simp_all only: s t c lu lt)
  ultimately show ?thesis using ph pages by blast
qed

text \<open>
  The three-page deck: three slides, and page 3, whose conversion throws, has the error
  text and a distinct placeholder file.
\<close>

theorem pdf_strategy_slides_witness:
  "chooseStrategy threePages = PaginateThenRasterize 3 \<and>
   slideCount (convertedPresentation threePages deckRequest deckUpload Map.empty) = 3 \<and>
   length (slides (convertedPresentation threePages deckRequest deckUpload Map.empty)) = 3 \<and>
   length (slideTexts (convertedPresentation threePages deckRequest deckUpload Map.empty)) = 3 \<and>
   raster threePages 3 = ExecThrows \<and>
   slides (convertedPresentation threePages deckRequest deckUpload Map.empty) ! 2 = ''/slides/p1/slide-3.jpg'' \<and>
   slideTexts (convertedPresentation threePages deckRequest deckUpload Map.empty) ! 2 = ''Slide 3 (Error Placeholder)'' \<and>
   convertedFiles threePages deckUpload Map.empty ''public/slides/p1/slide-3.jpg'' =
     Some (Text (distinctText 3 ''Page 3 of Deck.PPTX''))"
proof -
  have st: "chooseStrategy threePages = PaginateThenRasterize 3"
    by (simp add: model_defs example_defs)
  have c: "newPresentationId threePages = ''p1''" "originalname deckUpload = ''Deck.PPTX''"
    "raster threePages 3 = ExecThrows" "\<not> writeFileThrows threePages ''public/slides/p1/slide-3.jpg''"
    by (simp_all add: example_defs)
  have d: "decimal 3 = ''3''"
    by (simp add: decimal.simps digit_char_def)
  note t = pdf_strategy_slides [OF st, of deckRequest deckUpload Map.empty]
  from t have "slideCount (convertedPresentation threePages deckRequest deckUpload Map.empty) = 3"
    and "length (slides (convertedPresentation threePages deckRequest deckUpload Map.empty)) = 3"
    and "length (slideTexts (convertedPresentation threePages deckRequest deckUpload Map.empty)) = 3"
    by blast+
  moreover from t have "1 \<le> (3::nat) \<and> (3::nat) \<le> 3 \<longrightarrow>
      slides (convertedPresentation threePages deckRequest deckUpload Map.empty) ! (3 - 1) =
        ''/slides/'' @ newPresentationId threePages @ ''/slide-'' @ decimal 3 @ ''.jpg'' \<and>
      slideTexts (convertedPresentation threePages deckRequest deckUpload Map.empty) ! (3 - 1) =
        (case raster threePages 3 of
           Extracted t \<Rightarrow> orDefault t (''Slide '' @ decimal 3)
         | TempFileMissing \<Rightarrow> ''Slide '' @ decimal 3 @ '' (Placeholder)''
         | _ \<Rightarrow> ''Slide '' @ decimal 3 @ '' (Error Placeholder)'') \<and>
      convertedFiles threePages deckUpload Map.empty (''public/slides/'' @ newPresentationId threePages @ ''/slide-'' @ decimal 3 @ ''.jpg'') =
        (case raster threePages 3 of
           Extracted t \<Rightarrow> Some Rendered
         | _ \<Rightarrow> if writeFileThrows threePages (''public/slides/'' @ newPresentationId threePages @ ''/slide-'' @ decimal 3 @ ''.jpg'')
                then Map.empty (''public/slides/'' @ newPresentationId threePages @ ''/slide-'' @ decimal 3 @ ''.jpg'')
                else Some (Text (distinctText 3 (''Page '' @ decimal 3 @ '' of '' @ originalname deckUpload))))"
    by blast
  then have "slides (convertedPresentation threePages deckRequest deckUpload Map.empty) ! 2 = ''/slides/p1/slide-3.jpg'' \<and>
   slideTexts (convertedPresentation threePages deckRequest deckUpload Map.empty) ! 2 = ''Slide 3 (Error Placeholder)'' \<and>
   convertedFiles threePages deckUpload Map.empty ''public/slides/p1/slide-3.jpg'' =
     Some (Text (distinctText 3 ''Page 3 of Deck.PPTX''))"
    using c d by simp
  ultimately show ?thesis using st c by simp
qed

subsection \<open>C5: the placeholder flag\<close>

text \<open>
  The claim as written makes \<open>isPlaceholder\<close> true as soon as one slide is synthetic.
  The record of the three-page deck has \<open>isPlaceholder = False\<close> although its second slide
  is a placeholder file.
\<close>

theorem isPlaceholder_counterexample:
  "\<not> isPlaceholder (convertedPresentation threePages deckRequest deckUpload Map.empty) \<and>
   slides (convertedPresentation threePages deckRequest deckUpload Map.empty) ! 1 = ''/slides/p1/slide-2.jpg'' \<and>
   convertedFiles threePages deckUpload Map.empty ''public/slides/p1/slide-2.jpg'' =
     Some (Text (distinctText 2 ''Page 2 of Deck.PPTX'')) \<and>
   synthetic (convertedFiles threePages deckUpload Map.empty)
     (slides (convertedPresentation threePages deckRequest deckUpload Map.empty) ! 1)"
  by (simp add: model_defs example_defs)

text \<open>
  Claim C5, amended. \<open>isPlaceholder\<close> is true exactly when the whole record is a
  placeholder fill, that is when the renderer is unavailable or both conversion strategies
  failed; every slide of such a record whose write does not throw is synthetic. A record
  of the PDF or the direct-export strategy has \<open>isPlaceholder = False\<close>, whatever
  placeholders it contains.
\<close>

theorem isPlaceholder_whole_record:
  "isPlaceholder (convertedPresentation e req f d) =
     (chooseStrategy e = RendererUnavailable \<or> chooseStrategy e = PlaceholderFill) \<and>
   (isPlaceholder (convertedPresentation e req f d) \<longrightarrow>
      (\<forall>i < slideCount (convertedPresentation e req f d).
         \<not> writeFileThrows e (servedFile (slides (convertedPresentation e req f d) ! i)) \<longrightarrow>
         synthetic (convertedFiles e f d) (slides (convertedPresentation e req f d) ! i)))"
proof (cases "chooseStrategy e")
  case RendererUnavailable
  then have "isPlaceholder (convertedPresentation e req f d)" "slideCount (convertedPresentation e req f d) = 5"
    by (simp_all add: convertedPresentation_def withSlides_def placeholderCount_def)
  with RendererUnavailable synthetic_generic [OF RendererUnavailable, of _ req f d] show ?thesis
    by simp
next
  case (PaginateThenRasterize n)
  then show ?thesis by (simp add: convertedPresentation_def withSlides_def)
next
  case (DirectExport imageFiles)
  then show ?thesis by (simp add: convertedPresentation_def withSlides_def)
next
  case PlaceholderFill
  then have "isPlaceholder (convertedPresentation e req f d)" "slideCount (convertedPresentation e req f d) = 23"
    by (simp_all add: convertedPresentation_def withSlides_def estimatedSlideCount_def)
  with PlaceholderFill synthetic_fallback [OF PlaceholderFill, of _ req f d] show ?thesis
    by simp
qed

text \<open>
  Without a renderer the flag is set and the first slide is synthetic; for the three-page
  deck the flag is not set.
\<close>

theorem isPlaceholder_whole_record_witness:
  "chooseStrategy noRenderer = RendererUnavailable \<and>
   isPlaceholder (convertedPresentation noRenderer deckRequest deckUpload Map.empty) \<and>
   (0::nat) < slideCount (convertedPresentation noRenderer deckRequest deckUpload Map.empty) \<and>
   \<not> writeFileThrows noRenderer (servedFile (slides (convertedPresentation noRenderer deckRequest deckUpload Map.empty) ! 0)) \<and>
   synthetic (convertedFiles noRenderer deckUpload Map.empty)
     (slides (convertedPresentation noRenderer deckRequest deckUpload Map.empty) ! 0) \<and>
   chooseStrategy threePages = PaginateThenRasterize 3 \<and>
   \<not> isPlaceholder (convertedPresentation threePages deckRequest deckUpload Map.empty)"
proof -
  have st: "chooseStrategy noRenderer = RendererUnavailable" "chooseStrategy threePages = PaginateThenRasterize 3"
    by (simp_all add: model_defs example_defs)
  have w: "\<not> writeFileThrows noRenderer (servedFile (slides (convertedPresentation noRenderer deckRequest deckUpload Map.empty) ! 0))"
    by (simp add: example_defs)
  have n: "(0::nat) < slideCount (convertedPresentation noRenderer deckRequest deckUpload Map.empty)"
    by (simp add: convertedPresentation_def st withSlides_def placeholderCount_def)
  note t = isPlaceholder_whole_record [of noRenderer deckRequest deckUpload Map.empty]
  from t st have p: "isPlaceholder (convertedPresentation noRenderer deckRequest deckUpload Map.empty)"
    by simp
  with t n w have "synthetic (convertedFiles noRenderer deckUpload Map.empty)
     (slides (convertedPresentation noRenderer deckRequest deckUpload Map.empty) ! 0)"
    by blast
  moreover from isPlaceholder_whole_record [of threePages deckRequest deckUpload Map.empty] st
  have "\<not> isPlaceholder (convertedPresentation threePages deckRequest deckUpload Map.empty)"
    by simp
  ultimately show ?thesis using st p n w by simp
qed

subsection \<open>C6: rejected uploads\<close>

text \<open>
  The claim as written answers 400 to a bad extension and to an oversized file. Both are
  errors of the upload middleware, which the error-handling middleware answers with 500.
\<close>

theorem convert_rejects_upload_counterexample:
  "req_file textRequest = Some \<lparr>originalname = ''notes.txt'', size_bytes = 10\<rparr> \<and>
   toLowerCase (extname ''notes.txt'') \<notin> set allowedExtensions \<and>
   fst (convert threePages textRequest emptyServer) =
     Some \<lparr>status = 500,
           body = ErrorBody ''Only PowerPoint files (.ppt, .pptx) and Keynote files (.key) are allowed''\<rparr> \<and>
   req_file hugeRequest = Some \<lparr>originalname = ''big.pptx'', size_bytes = 52428801\<rparr> \<and>
   fileSizeLimit < 52428801 \<and>
   fst (convert threePages hugeRequest emptyServer) = Some \<lparr>status = 500, body = ErrorBody ''File too large''\<rparr>"
  by (simp add: model_defs example_defs)

text \<open>
  Claim C6, amended. A \<^verbatim>\<open>POST /convert\<close> request without a file is answered 400; a
  request whose file has an extension outside \<^verbatim>\<open>.ppt\<close>, \<^verbatim>\<open>.pptx\<close>, \<^verbatim>\<open>.key\<close>
  (compared in lower case) or a size above 50 MB is answered 500 with an error body. In
  all three cases the server state is unchanged: no record, no cache or index entry, no
  slide file.
\<close>

theorem convert_rejects_upload:
  assumes "convert e req s = (resp, s')"
  shows "(req_file req = None \<longrightarrow>
            resp = Some \<lparr>status = 400, body = ErrorBody ''No file uploaded''\<rparr> \<and> s' = s) \<and>
         (\<forall>f. req_file req = Some f \<and>
              (toLowerCase (extname (originalname f)) \<notin> set allowedExtensions \<or> fileSizeLimit < size_bytes f) \<longrightarrow>
              (\<exists>message. resp = Some \<lparr>status = 500, body = ErrorBody message\<rparr>) \<and> s' = s)"
  using assms
  by (auto simp: convert_def uploadSingle_def fileFilter_def errorHandler_def Let_def
      split: option.splits if_splits)

text \<open>
  No file, a text file, and a file of 50 MB plus one byte.
\<close>

theorem convert_rejects_upload_witness:
  "req_file noFileRequest = None \<and>
   fst (convert threePages noFileRequest emptyServer) =
     Some \<lparr>status = 400, body = ErrorBody ''No file uploaded''\<rparr> \<and>
   snd (convert threePages noFileRequest emptyServer) = emptyServer \<and>
   req_file textRequest = Some \<lparr>originalname = ''notes.txt'', size_bytes = 10\<rparr> \<and>
   toLowerCase (extname ''notes.txt'') \<notin> set allowedExtensions \<and>
   status (the (fst (convert threePages textRequest emptyServer))) = 500 \<and>
   snd (convert threePages textRequest emptyServer) = emptyServer \<and>
   req_file hugeRequest = Some \<lparr>originalname = ''big.pptx'', size_bytes = 52428801\<rparr> \<and>
   fileSizeLimit < 52428801 \<and>
   status (the (fst (convert threePages hugeRequest emptyServer))) = 500 \<and>
   snd (convert threePages hugeRequest emptyServer) = emptyServer"
proof -
  have a: "req_file noFileRequest = None"
    "req_file textRequest = Some \<lparr>originalname = ''notes.txt'', size_bytes = 10\<rparr>"
    "req_file hugeRequest = Some \<lparr>originalname = ''big.pptx'', size_bytes = 52428801\<rparr>"
    by (simp_all add: example_defs)
  have b: "toLowerCase (extname ''notes.txt'') \<notin> set allowedExtensions" "fileSizeLimit < 52428801"
    by (simp_all add: model_defs)
  from convert_rejects_upload [of threePages noFileRequest emptyServer
      "fst (convert threePages noFileRequest emptyServer)" "snd (convert threePages noFileRequest emptyServer)"] a
  have c: "fst (convert threePages noFileRequest emptyServer) =
             Some \<lparr>status = 400, body = ErrorBody ''No file uploaded''\<rparr> \<and>
        snd (convert threePages noFileRequest emptyServer) = emptyServer"
    by simp
  from convert_rejects_upload [of threePages textRequest emptyServer
      "fst (convert threePages textRequest emptyServer)" "snd (convert threePages textRequest emptyServer)"] a b
  have d: "status (the (fst (convert threePages textRequest emptyServer))) = 500 \<and>
        snd (convert threePages textRequest emptyServer) = emptyServer"
    by auto
  from convert_rejects_upload [of threePages hugeRequest emptyServer
      "fst (convert threePages hugeRequest emptyServer)" "snd (convert threePages hugeRequest emptyServer)"] a b
  have e: "status (the (fst (convert threePages hugeRequest emptyServer))) = 500 \<and>
        snd (convert threePages hugeRequest emptyServer) = emptyServer"
    by auto
  from a b c d e show ?thesis by simp
qed

subsection \<open>C7: soft delete\<close>

text \<open>
  The claim as written has the slide files removed, and a 404 after every successful
  delete. After the deck is deleted its first slide file is still on disk; and when the
  database update throws, the delete is answered 200 from the cache alone and the next
  read finds the record in the database again.
\<close>

theorem delete_keeps_files_counterexample:
  "findOne (liveWithId ''p1'') (db deckServer) =
     Some (convertedPresentation threePages deckRequest deckUpload Map.empty) \<and>
   files deckServer ''public/slides/p1/slide-1.jpg'' = Some Rendered \<and>
   fst (deletePresentation False ''p1'' deckServer) =
     Some \<lparr>status = 200, body = SuccessBody ''Presentation deleted''\<rparr> \<and>
   files (snd (deletePresentation False ''p1'' deckServer)) ''public/slides/p1/slide-1.jpg'' = Some Rendered \<and>
   fst (deletePresentation True ''p1'' deckServer) =
     Some \<lparr>status = 200,
           body = SuccessBody ''Presentation deleted from memory cache, but database update failed''\<rparr> \<and>
   fst (getPresentation False False ''p1'' None (snd (deletePresentation True ''p1'' deckServer))) =
     Some \<lparr>status = 200,
           body = PresentationBody (convertedPresentation threePages deckRequest deckUpload Map.empty)\<rparr>"
  using deckServer_live deckServer_cache deckServer_index deck_live deckServer_file deckServer_delete
  by (simp add: deletePresentation_def deleteFromMemory_def removeFromCache_def getPresentation_def
      answerFromDatabase_def getProperty_def objectPrototypeNames_def truthy_def
      toLowerCase_def lower_char_def Let_def)

text \<open>
  Claim C7, amended. Take an existing, non-deleted presentation id (a UUID, hence no
  property name of \<^verbatim>\<open>Object.prototype\<close>) in a collection with unique ids. If
  \<^verbatim>\<open>DELETE /presentation/:id\<close> is answered 200 and its database update did not throw,
  then a following \<^verbatim>\<open>GET /presentation/:id\<close> whose lookup does not throw is answered
  404; the document is still in the collection, now with \<open>isDeleted\<close> set, and the
  collection has not shrunk; the slide files on disk are left as they were.
\<close>

theorem delete_then_get:
  assumes "distinct (map id_p (db s))"
    and "findOne (liveWithId pid) (db s) = Some d"
    and "pid \<notin> set objectPrototypeNames"
    and "deletePresentation False pid s = (Some resp, s')"
    and "status resp = 200"
  shows "fst (getPresentation False incrementThrows pid userId s') =
           Some \<lparr>status = 404, body = ErrorBody ''Presentation not found''\<rparr> \<and>
         files s' = files s \<and>
         findOne (hasId pid) (db s') = Some (d\<lparr>isDeleted := True\<rparr>) \<and>
         length (db s') = length (db s)"
proof -
  let ?docs = "updateFirst (liveWithId pid) (\<lambda>d. d\<lparr>isDeleted := True\<rparr>) (db s)"
  let ?s1 = "s\<lparr>db := ?docs\<rparr>"
  let ?removed = "removeFromCache pid ?s1"
  have nt: "\<not> fst ?removed"
  proof
    assume "fst ?removed"
    with assms(2,4) deleteFromMemory_after_throw [of pid ?s1] show False
      by (simp add: deletePresentation_def Let_def)
  qed
  with assms(2,4) have s': "s' = (snd ?removed)\<lparr>userPresentationHistory :=
                                    removeFromHistory pid (userPresentationHistory (snd ?removed))\<rparr>"
    by (simp add: deletePresentation_def Let_def)
  from removeFromCache_fields [of pid ?s1] have d: "db s' = ?docs" and f: "files s' = files s"
    by (simp_all add: s')
  from removeFromCache_done [OF nt] have c: "presentations s' pid = None"
    by (simp add: s')
  from softDelete_findOne [OF assms(1,2)] d
  have g: "findOne (liveWithId pid) (db s') = None" and h: "findOne (hasId pid) (db s') = Some (d\<lparr>isDeleted := True\<rparr>)"
    by simp_all
  from c g assms(3) have "fst (getPresentation False incrementThrows pid userId s') =
           Some \<lparr>status = 404, body = ErrorBody ''Presentation not found''\<rparr>"
    by (simp add: getPresentation_def getProperty_def answerFromDatabase_def)
  with f h d show ?thesis by (simp add: length_updateFirst)
qed

text \<open>
  Deleting the converted deck.
\<close>

theorem delete_then_get_witness:
  "distinct (map id_p (db deckServer)) \<and>
   findOne (liveWithId ''p1'') (db deckServer) =
     Some (convertedPresentation threePages deckRequest deckUpload Map.empty) \<and>
   ''p1'' \<notin> set objectPrototypeNames \<and>
   fst (deletePresentation False ''p1'' deckServer) =
     Some \<lparr>status = 200, body = SuccessBody ''Presentation deleted''\<rparr> \<and>
   fst (getPresentation False False ''p1'' None (snd (deletePresentation False ''p1'' deckServer))) =
     Some \<lparr>status = 404, body = ErrorBody ''Presentation not found''\<rparr> \<and>
   files (snd (deletePresentation False ''p1'' deckServer)) = files deckServer \<and>
   findOne (hasId ''p1'') (db (snd (deletePresentation False ''p1'' deckServer))) =
     Some ((convertedPresentation threePages deckRequest deckUpload Map.empty)\<lparr>isDeleted := True\<rparr>) \<and>
   length (db (snd (deletePresentation False ''p1'' deckServer))) = length (db deckServer)"
proof -
  have a: "distinct (map id_p (db deckServer))"
    by (simp add: deckServer_db)
  have n: "''p1'' \<notin> set objectPrototypeNames"
    by (simp add: objectPrototypeNames_def)
  have c: "deletePresentation False ''p1'' deckServer =
     (Some \<lparr>status = 200, body = SuccessBody ''Presentation deleted''\<rparr>,
      snd (deletePresentation False ''p1'' deckServer))"
    using deckServer_delete by (metis prod.collapse)
  have k: "status \<lparr>status = 200, body = SuccessBody ''Presentation deleted''\<rparr> = 200"
    by simp
  from delete_then_get [OF a deckServer_live n c k, of False None] a deckServer_live n deckServer_delete
  show ?thesis by simp
qed

subsection \<open>C8: slide URLs\<close>

text \<open>
  The claim as written has every URL in the canonical form. In the direct export a file
  whose rename throws keeps its own name in the URL.
\<close>

theorem slide_urls_counterexample:
  "chooseStrategy directExport = DirectExport [''Deck.jpg'', ''Deck2.jpg''] \<and>
   renameThrows directExport 0 \<and>
   (0::nat) < length (slides (convertedPresentation directExport deckRequest deckUpload Map.empty)) \<and>
   slides (convertedPresentation directExport deckRequest deckUpload Map.empty) ! 0 = ''/slides/p1/Deck.jpg'' \<and>
   slides (convertedPresentation directExport deckRequest deckUpload Map.empty) ! 0 \<noteq> ''/slides/p1/slide-1.jpg''"
  by (simp add: model_defs example_defs)

text \<open>
  Claim C8, amended. Every entry \<open>i\<close> of \<open>slides\<close> is
  \<^verbatim>\<open>/slides/{id}/slide-{i+1}.jpg\<close> for the record's id, except an image of the direct
  export whose rename threw: its entry is \<^verbatim>\<open>/slides/{id}/\<close> followed by the file's
  original name.
\<close>

theorem slide_urls:
  assumes "i < length (slides (convertedPresentation e req f d))"
  shows "slides (convertedPresentation e req f d) ! i =
     (case chooseStrategy e of
        DirectExport imageFiles \<Rightarrow>
          if i < length imageFiles \<and> renameThrows e i
          then ''/slides/'' @ newPresentationId e @ ''/'' @ imageFiles ! i
          else ''/slides/'' @ newPresentationId e @ ''/slide-'' @ decimal (i + 1) @ ''.jpg''
      | _ \<Rightarrow> ''/slides/'' @ newPresentationId e @ ''/slide-'' @ decimal (i + 1) @ ''.jpg'')"
proof (cases "chooseStrategy e")
  case RendererUnavailable
  with assms show ?thesis
    by (simp add: convertedPresentation_def strategySlides_def slides_withSlides
        urls_genericPlaceholders slideUrl_canonical)
next
  case (PaginateThenRasterize n)
  with assms show ?thesis
    by (simp add: convertedPresentation_def strategySlides_def slides_withSlides
        urls_pdfSlides slideUrl_canonical)
next
  case (DirectExport imageFiles)
  with assms nth_urls_jpgSlides [of i e "newPresentationId e" "originalname f" imageFiles d] show ?thesis
    by (simp add: convertedPresentation_def strategySlides_def slides_withSlides)
next
  case PlaceholderFill
  with assms show ?thesis
    by (simp add: convertedPresentation_def strategySlides_def slides_withSlides
        urls_fallbackPlaceholders slideUrl_canonical)
qed

text \<open>
  Direct export of two images: the second is renamed, the rename of the first throws.
\<close>

theorem slide_urls_witness:
  "chooseStrategy directExport = DirectExport [''Deck.jpg'', ''Deck2.jpg''] \<and>
   (1::nat) < length (slides (convertedPresentation directExport deckRequest deckUpload Map.empty)) \<and>
   \<not> renameThrows directExport 1 \<and>
   slides (convertedPresentation directExport deckRequest deckUpload Map.empty) ! 1 = ''/slides/p1/slide-2.jpg'' \<and>
   renameThrows directExport 0 \<and>
   slides (convertedPresentation directExport deckRequest deckUpload Map.empty) ! 0 = ''/slides/p1/Deck.jpg''"
proof -
  have st: "chooseStrategy directExport = DirectExport [''Deck.jpg'', ''Deck2.jpg'']"
    by (simp add: model_defs example_defs)
  have n: "(1::nat) < length (slides (convertedPresentation directExport deckRequest deckUpload Map.empty))"
    "(0::nat) < length (slides (convertedPresentation directExport deckRequest deckUpload Map.empty))"
    by (simp_all add: convertedPresentation_def st strategySlides_def slides_withSlides urls_jpgSlides)
  have c: "newPresentationId directExport = ''p1''" "\<not> renameThrows directExport 1" "renameThrows directExport 0"
    by (simp_all add: example_defs)
  have d: "decimal (1 + 1) = ''2''"
    by (simp add: decimal.simps digit_char_def)
  from slide_urls [OF n(1)] slide_urls [OF n(2)] st c d n show ?thesis by simp
qed

subsection \<open>C9: saving twice\<close>

text \<open>
  Claim C9. Saving the same payload twice under the same id leaves exactly one document
  with that id in the collection, equal to the payload; the second call takes the update
  branch and leaves the collection as the first call left it. The collection starts with
  unique ids, as the unique index on \<open>id\<close> in the schema enforces.
\<close>

theorem saveToDatabase_twice:
  assumes "distinct (map id_p docs)"
    and "saveToDatabase ft1 wt1 docs p = Inr (r1, docs1)"
    and "saveToDatabase ft2 wt2 docs1 p = Inr (r2, docs2)"
  shows "recordsWithId (id_p p) docs2 = 1 \<and> findOne (hasId (id_p p)) docs2 = Some p \<and> r2 = p \<and> docs2 = docs1"
proof -
  from save_once [OF assms(1,2)]
  have f: "findOne (hasId (id_p p)) docs1 = Some p" and c: "recordsWithId (id_p p) docs1 = 1"
    by simp_all
  have u: "updateFirst (hasId (id_p p)) (\<lambda>_. p) docs1 = docs1"
    using f by (rule updateFirst_idem) simp
  from assms(3) f u have "docs2 = docs1" and "r2 = p"
    by (auto simp: saveToDatabase_def Let_def split: if_splits)
  with f c show ?thesis by simp
qed

text \<open>
  Saving \<open>deck\<close> twice into the empty collection.
\<close>

theorem saveToDatabase_twice_witness:
  "distinct (map id_p []) \<and> saveToDatabase False False [] deck = Inr (deck, [deck]) \<and>
   saveToDatabase False False [deck] deck = Inr (deck, [deck]) \<and>
   recordsWithId (id_p deck) [deck] = 1 \<and> findOne (hasId (id_p deck)) [deck] = Some deck"
proof -
  have a: "distinct (map id_p ([] :: collection))" by simp
  have b: "saveToDatabase False False [] deck = Inr (deck, [deck])"
    by (simp add: saveToDatabase_def findOne_def)
  have c: "saveToDatabase False False [deck] deck = Inr (deck, [deck])"
    by (simp add: saveToDatabase_def findOne_def hasId_def)
  from saveToDatabase_twice [OF a b c] a b c show ?thesis by simp
qed

subsection \<open>C10: memory-only delete\<close>

text \<open>
  Claim C10 says that \<^verbatim>\<open>DELETE /presentation/:id\<close> answers 200 with
  \<^verbatim>\<open>success: true\<close> for every cached id when its database update throws, after a
  memory-only delete. The handler does so when no topic of the cached record lower-cases
  to a property name of \<^verbatim>\<open>Object.prototype\<close>: the id then leaves the cache, the index
  entries of the record's topics and every history, and the collection and the files are
  untouched.
\<close>

lemma delete_memory_only_plain_topics:
  assumes "presentations s pid = Some cached"
    and "\<forall>t \<in> set (topics cached). toLowerCase t \<notin> set objectPrototypeNames"
  shows "fst (deletePresentation True pid s) =
           Some \<lparr>status = 200,
                 body = SuccessBody ''Presentation deleted from memory cache, but database update failed''\<rparr> \<and>
         db (snd (deletePresentation True pid s)) = db s \<and>
         files (snd (deletePresentation True pid s)) = files s \<and>
         presentations (snd (deletePresentation True pid s)) = (presentations s)(pid := None) \<and>
         (\<forall>t \<in> set (topics cached). \<forall>ids.
            presentationsByTopic (snd (deletePresentation True pid s)) (toLowerCase t) = Some ids \<longrightarrow> pid \<notin> set ids) \<and>
         (\<forall>u ids. userPresentationHistory (snd (deletePresentation True pid s)) u = Some ids \<longrightarrow> pid \<notin> set ids)"
proof -
  let ?removed = "removeTopics pid (topics cached) (presentationsByTopic s)"
  from assms(2) have nt: "\<not> fst ?removed"
    by (auto simp: removeTopics_throws_iff)
  from assms(1) have own: "getProperty (presentations s) pid = Own cached"
    by (simp add: getProperty_def)
  from own nt have rc: "removeFromCache pid s =
      (False, s\<lparr>presentationsByTopic := snd ?removed, presentations := (presentations s)(pid := None)\<rparr>)"
    by (simp add: removeFromCache_def Let_def)
  from own rc have r: "deletePresentation True pid s =
      (Some \<lparr>status = 200,
             body = SuccessBody ''Presentation deleted from memory cache, but database update failed''\<rparr>,
       s\<lparr>presentationsByTopic := snd ?removed, presentations := (presentations s)(pid := None),
         userPresentationHistory := removeFromHistory pid (userPresentationHistory s)\<rparr>)"
    by (simp add: deletePresentation_def deleteFromMemory_def Let_def)
  have "\<forall>t \<in> set (topics cached). \<forall>ids. snd ?removed (toLowerCase t) = Some ids \<longrightarrow> pid \<notin> set ids"
    using removeTopics_clears [OF nt] by blast
  moreover have "\<forall>u ids. removeFromHistory pid (userPresentationHistory s) u = Some ids \<longrightarrow> pid \<notin> set ids"
    using removeFromHistory_clears by blast
  ultimately show ?thesis by (simp add: r)
qed

text \<open>
  The cached deck with a failing database.
\<close>

lemma delete_memory_only_deck:
  "presentations deckServer ''p1'' = Some (convertedPresentation threePages deckRequest deckUpload Map.empty) \<and>
   fst (deletePresentation True ''p1'' deckServer) =
     Some \<lparr>status = 200,
           body = SuccessBody ''Presentation deleted from memory cache, but database update failed''\<rparr> \<and>
   db (snd (deletePresentation True ''p1'' deckServer)) = db deckServer \<and>
   presentations (snd (deletePresentation True ''p1'' deckServer)) ''p1'' = None"
proof -
  have p: "\<forall>t \<in> set (topics (convertedPresentation threePages deckRequest deckUpload Map.empty)).
             toLowerCase t \<notin> set objectPrototypeNames"
    using deck_live by (simp add: objectPrototypeNames_def toLowerCase_def lower_char_def)
  from delete_memory_only_plain_topics [OF deckServer_cache p] deckServer_cache show ?thesis
    by simp
qed

text \<open>
  Claim C10 at a record filed under the topic \<^verbatim>\<open>constructor\<close>. Submitting the deck
  under that topic is answered 500, because the index update throws after the record has
  been saved and cached. When the database update of a later
  \<^verbatim>\<open>DELETE /presentation/p1\<close> throws, the \<^verbatim>\<open>catch\<close> branch throws in turn: the
  handler sends no response, and the record stays in the cache.
\<close>

theorem delete_memory_only_inherited_topic:
  "fst (convert threePages constructorRequest emptyServer) =
     Some \<lparr>status = 500, body = DatabaseErrorBody TypeError ''p1''\<rparr> \<and>
   presentations constructorServer ''p1'' =
     Some (convertedPresentation threePages constructorRequest deckUpload Map.empty) \<and>
   topics (convertedPresentation threePages constructorRequest deckUpload Map.empty) = [''constructor''] \<and>
   fst (deletePresentation True ''p1'' constructorServer) = None \<and>
   presentations (snd (deletePresentation True ''p1'' constructorServer)) ''p1'' =
     Some (convertedPresentation threePages constructorRequest deckUpload Map.empty)"
proof -
  have a: "fst (convert threePages constructorRequest emptyServer) =
     Some \<lparr>status = 500, body = DatabaseErrorBody TypeError ''p1''\<rparr>"
    by (simp add: model_defs example_defs)
  have b: "presentations constructorServer ''p1'' =
     Some (convertedPresentation threePages constructorRequest deckUpload Map.empty)"
    by (simp add: model_defs example_defs)
  have c: "topics (convertedPresentation threePages constructorRequest deckUpload Map.empty) = [''constructor'']"
    by (simp add: model_defs example_defs)
  have d: "presentationsByTopic constructorServer = Map.empty"
    by (simp add: model_defs example_defs)
  from b c d have "deletePresentation True ''p1'' constructorServer = (None, constructorServer)"
    by (simp add: deletePresentation_def deleteFromMemory_def removeFromCache_def getProperty_def
        objectPrototypeNames_def toLowerCase_def lower_char_def Let_def)
  with a b c show ?thesis by simp
qed

end
